theory Spec2Isabelle
  imports Main
begin

section \<open>Terms, substitutions and exceptions\<close>

text \<open>
  Modelled from the spec: the term classes of the parser module are not among the
  sources. The constructors are the five variants of the term model (atoms, numbers,
  variables, compounds, lists). The fields \<open>functor\<close> and \<open>args\<close> of a compound are the selectors
  \<open>term_functor\<close> and \<open>term_args\<close>; a variable has a name and an id; a list has its
  \<open>elements\<close> and an optional \<open>tail\<close>; a float carries its mantissa and exponent.
\<close>

datatype prolog_term =
    Atom string
  | Number int
  | Float int int
  | Variable string nat
  | Compound (term_functor: string) (term_args: "prolog_term list")
  | List (elements: "prolog_term list") (tail: "prolog_term option")

text \<open>A substitution maps variable ids to terms; the built-ins never look inside it.\<close>

type_synonym Substitution = "(nat \<times> prolog_term) list"

text \<open>
  What a Python frame can raise: a Prolog-level throw carrying a term, or another Python
  exception, named by its class.
\<close>

datatype exn = PrologThrow prolog_term | PyError string

section \<open>Generators\<close>

text \<open>
  A Python generator is driven by \<open>next\<close> and \<open>close\<close>. The engine state that a
  goal may read and change (database, streams, counters) is the world \<open>'w\<close>. One
  \<open>next\<close> from a given world ends the generator (\<open>Stop\<close>, StopIteration), raises
  (\<open>Raise\<close>), or yields a substitution and suspends; a suspended generator is resumed by
  the next \<open>next\<close> or closed by \<open>close\<close>, which runs its pending \<open>finally\<close> blocks and
  returns normally (\<open>None\<close>) or raises. The datatype holds the generators whose every
  run ends: whatever the worlds they are resumed in, they stop, raise or are closed after
  finitely many solutions.
\<close>

datatype 'w step =
    Stop 'w
  | Raise exn 'w
  | Yield Substitution 'w "'w \<Rightarrow> 'w step" "'w \<Rightarrow> exn option \<times> 'w"

type_synonym 'w gen = "'w \<Rightarrow> 'w step"

text \<open>
  \<open>yield from g\<close>: every solution of \<open>g\<close> is passed on; when \<open>g\<close> stops the frame goes
  on with \<open>on_return\<close>, when \<open>g\<close> raises the exception arrives in the frame
  (\<open>on_raise\<close>), and when the frame itself is closed while suspended here, \<open>g\<close> is closed
  first and the frame unwinds with the outcome of that (\<open>on_close\<close>).
\<close>

primrec yield_from ::
  "'w step \<Rightarrow> ('w \<Rightarrow> 'w step) \<Rightarrow> (exn \<Rightarrow> 'w \<Rightarrow> 'w step)
     \<Rightarrow> (exn option \<times> 'w \<Rightarrow> exn option \<times> 'w) \<Rightarrow> 'w step" where
  "yield_from (Stop w) = (\<lambda>on_return on_raise on_close. on_return w)"
| "yield_from (Raise e w) = (\<lambda>on_return on_raise on_close. on_raise e w)"
| "yield_from (Yield s w resume cl) = (\<lambda>on_return on_raise on_close.
     Yield s w (\<lambda>w'. yield_from (resume w') on_return on_raise on_close)
               (\<lambda>w'. on_close (cl w')))"

text \<open>
  A suspended generator that loses its last reference (the iterator of a \<open>for\<close> loop left
  by \<open>break\<close>, \<open>return\<close> or an exception) is closed by the reference-counting collector;
  what its \<open>close\<close> raises there is not propagated.
\<close>

definition dropped :: "('w \<Rightarrow> exn option \<times> 'w) \<Rightarrow> 'w \<Rightarrow> 'w" where
  "dropped cl w = snd (cl w)"

section \<open>The engine as seen by a built-in\<close>

text \<open>
  The engine is not among the sources. A built-in reaches it through the methods below;
  they are parameters of the model. \<open>solve_goals\<close> is the resolver: a goal list and a
  substitution give a generator of substitutions.
\<close>

record 'w EngineContext =
  solve_goals :: "prolog_term list \<Rightarrow> Substitution \<Rightarrow> 'w gen"
  flatten_conjunction :: "prolog_term \<Rightarrow> prolog_term list"
  check_predicate_exists :: "prolog_term \<Rightarrow> string \<Rightarrow> 'w \<Rightarrow> exn option"

text \<open>\<open>deref\<close> and \<open>unify\<close> of the unification module are parameters as well.\<close>

type_synonym deref_fn = "prolog_term \<Rightarrow> Substitution \<Rightarrow> prolog_term"
type_synonym unify_fn = "prolog_term \<Rightarrow> prolog_term \<Rightarrow> Substitution \<Rightarrow> Substitution option"

section \<open>Control built-ins\<close>

text \<open>
  \<open>_builtin_unify\<close> and \<open>_builtin_not_unifiable\<close> return a substitution, or \<open>None\<close> for
  failure; \<open>args[0]\<close> and \<open>args[1]\<close> raise IndexError on a short tuple.
\<close>

fun builtin_unify ::
  "unify_fn \<Rightarrow> prolog_term list \<Rightarrow> Substitution \<Rightarrow> exn + Substitution option" where
  "builtin_unify unify (a # b # rest) subst = Inr (unify a b subst)"
| "builtin_unify unify args subst = Inl (PyError ''IndexError'')"

fun builtin_not_unifiable ::
  "unify_fn \<Rightarrow> prolog_term list \<Rightarrow> Substitution \<Rightarrow> exn + Substitution option" where
  "builtin_not_unifiable unify (a # b # rest) subst =
     Inr (if unify a b subst = None then Some subst else None)"
| "builtin_not_unifiable unify args subst = Inl (PyError ''IndexError'')"

text \<open>
  \<open>_negation_as_failure\<close> is a plain function: it pulls the first solution of the goal
  when it is called and returns an iterator, empty or holding \<open>subst\<close> alone. Leaving the
  loop by \<open>return\<close> drops the goal's generator.
\<close>

fun negation_as_failure ::
  "'w EngineContext \<Rightarrow> prolog_term list \<Rightarrow> Substitution \<Rightarrow> 'w
     \<Rightarrow> (exn + Substitution list) \<times> 'w" where
  "negation_as_failure engine (goal # rest) subst w =
     (case solve_goals engine [goal] subst w of
        Yield s w1 resume cl \<Rightarrow> (Inr [], dropped cl w1)
      | Stop w1 \<Rightarrow> (Inr [subst], w1)
      | Raise e w1 \<Rightarrow> (Inl e, w1))"
| "negation_as_failure engine [] subst w = (Inl (PyError ''IndexError''), w)"

text \<open>
  \<open>_builtin_disjunction\<close>. \<open>left, right = args\<close> raises ValueError unless there are two
  arguments. In the if-then-else branch the condition's generator stays suspended while
  the solutions of \<open>then_part\<close> are passed on, and is dropped when the frame is left (by
  \<open>return\<close>, by an exception, or by \<open>close\<close>).
\<close>

definition is_if_then :: "prolog_term \<Rightarrow> bool" where
  "is_if_then left =
     (case left of Compound f as \<Rightarrow> f = ''->'' \<and> length as = 2 | _ \<Rightarrow> False)"

fun builtin_disjunction ::
  "'w EngineContext \<Rightarrow> prolog_term list \<Rightarrow> Substitution \<Rightarrow> 'w gen" where
  "builtin_disjunction engine [left, right] subst w =
     (if is_if_then left then
        (let condition = term_args left ! 0; then_part = term_args left ! 1; else_part = right in
         case solve_goals engine [condition] subst w of
           Yield condition_subst w1 resume cl \<Rightarrow>
             yield_from (solve_goals engine [then_part] condition_subst w1)
               (\<lambda>w2. Stop (dropped cl w2))
               (\<lambda>e w2. Raise e (dropped cl w2))
               (\<lambda>(x, w2). (x, dropped cl w2))
         | Stop w1 \<Rightarrow>
             yield_from (solve_goals engine [else_part] subst w1) Stop Raise (\<lambda>x. x)
         | Raise e w1 \<Rightarrow> Raise e w1)
      else
        yield_from (solve_goals engine [left] subst w)
          (\<lambda>w1. yield_from (solve_goals engine [right] subst w1) Stop Raise (\<lambda>x. x))
          Raise (\<lambda>x. x))"
| "builtin_disjunction engine args subst w = Raise (PyError ''ValueError'') w"

text \<open>
  \<open>_builtin_if_then\<close> is the if-then-else branch without an \<open>else\<close>;
  \<open>_builtin_conjunction\<close> flattens the conjunction and hands the goal list to the
  resolver.
\<close>

fun builtin_if_then ::
  "'w EngineContext \<Rightarrow> prolog_term list \<Rightarrow> Substitution \<Rightarrow> 'w gen" where
  "builtin_if_then engine [condition, then_part] subst w =
     (case solve_goals engine [condition] subst w of
        Yield condition_subst w1 resume cl \<Rightarrow>
          yield_from (solve_goals engine [then_part] condition_subst w1)
            (\<lambda>w2. Stop (dropped cl w2))
            (\<lambda>e w2. Raise e (dropped cl w2))
            (\<lambda>(x, w2). (x, dropped cl w2))
      | Stop w1 \<Rightarrow> Stop w1
      | Raise e w1 \<Rightarrow> Raise e w1)"
| "builtin_if_then engine args subst w = Raise (PyError ''ValueError'') w"

fun builtin_conjunction ::
  "'w EngineContext \<Rightarrow> prolog_term list \<Rightarrow> Substitution \<Rightarrow> 'w gen" where
  "builtin_conjunction engine [left, right] subst w =
     (let goals = flatten_conjunction engine (Compound '','' [left, right]) in
      yield_from (solve_goals engine goals subst w) Stop Raise (\<lambda>x. x))"
| "builtin_conjunction engine args subst w = Raise (PyError ''ValueError'') w"

text \<open>
  \<open>_builtin_call\<close>: the goal is dereferenced and handed to the resolver. \<open>_builtin_once\<close>
  yields the first solution and returns when it is resumed. \<open>_builtin_true\<close> returns the
  substitution, \<open>_builtin_fail\<close> an empty iterator.
\<close>

fun builtin_call ::
  "deref_fn \<Rightarrow> 'w EngineContext \<Rightarrow> prolog_term list \<Rightarrow> Substitution \<Rightarrow> 'w gen" where
  "builtin_call deref engine (a # rest) subst w =
     (let goal = deref a subst in
      yield_from (solve_goals engine [goal] subst w) Stop Raise (\<lambda>x. x))"
| "builtin_call deref engine [] subst w = Raise (PyError ''IndexError'') w"

fun builtin_once ::
  "deref_fn \<Rightarrow> 'w EngineContext \<Rightarrow> prolog_term list \<Rightarrow> Substitution \<Rightarrow> 'w gen" where
  "builtin_once deref engine (a # rest) subst w =
     (let goal = deref a subst in
      case solve_goals engine [goal] subst w of
        Yield solution w1 resume cl \<Rightarrow>
          Yield solution w1 (\<lambda>w2. Stop (dropped cl w2)) (\<lambda>w2. (None, dropped cl w2))
      | Stop w1 \<Rightarrow> Stop w1
      | Raise e w1 \<Rightarrow> Raise e w1)"
| "builtin_once deref engine [] subst w = Raise (PyError ''IndexError'') w"

definition builtin_true :: "prolog_term list \<Rightarrow> Substitution \<Rightarrow> Substitution" where
  "builtin_true args subst = subst"

definition builtin_fail :: "prolog_term list \<Rightarrow> Substitution \<Rightarrow> Substitution list" where
  "builtin_fail args subst = []"

text \<open>
  The \<open>finally\<close> block of both cleanup built-ins:
  \<open>for _ in engine._solve_goals([cleanup_goal], s): break\<close>. The cleanup generator is
  asked for one solution and dropped; only an exception of that first step leaves the
  block.
\<close>

definition run_cleanup ::
  "'w EngineContext \<Rightarrow> prolog_term \<Rightarrow> Substitution \<Rightarrow> 'w \<Rightarrow> exn option \<times> 'w" where
  "run_cleanup engine cleanup_goal s w =
     (case solve_goals engine [cleanup_goal] s w of
        Yield s' w1 resume cl \<Rightarrow> (None, dropped cl w1)
      | Stop w1 \<Rightarrow> (None, w1)
      | Raise e w1 \<Rightarrow> (Some e, w1))"

text \<open>
  How a \<open>try: yield from g finally: cleanup\<close> frame ends. After \<open>g\<close> stopped the frame
  goes on (\<open>None\<close>) unless the cleanup raised; an exception of \<open>g\<close> is raised again unless
  the cleanup raised another; on \<open>close\<close> the pending outcome \<open>x\<close> of closing \<open>g\<close>
  (\<open>None\<close> for GeneratorExit) is replaced by what the cleanup raised, if it raised.
\<close>

definition finally_after :: "exn option \<Rightarrow> exn option \<Rightarrow> exn option" where
  "finally_after pending raised = (case raised of None \<Rightarrow> pending | Some e \<Rightarrow> Some e)"

definition finish :: "exn option \<Rightarrow> 'w \<Rightarrow> 'w step" where
  "finish x w = (case x of None \<Rightarrow> Stop w | Some e \<Rightarrow> Raise e w)"

fun builtin_call_cleanup ::
  "deref_fn \<Rightarrow> 'w EngineContext \<Rightarrow> prolog_term list \<Rightarrow> Substitution \<Rightarrow> 'w gen" where
  "builtin_call_cleanup deref engine [goal0, cleanup_goal0] subst w =
     (let goal = deref goal0 subst; cleanup_goal = deref cleanup_goal0 subst in
      yield_from (solve_goals engine [goal] subst w)
        (\<lambda>w1. let (r, w2) = run_cleanup engine cleanup_goal subst w1
               in finish (finally_after None r) w2)
        (\<lambda>e w1. let (r, w2) = run_cleanup engine cleanup_goal subst w1
               in finish (finally_after (Some e) r) w2)
        (\<lambda>(x, w1). let (r, w2) = run_cleanup engine cleanup_goal subst w1
               in (finally_after x r, w2)))"
| "builtin_call_cleanup deref engine args subst w = Raise (PyError ''ValueError'') w"

text \<open>
  \<open>_builtin_setup_call_cleanup\<close>. The loop over the setup generator is left by \<open>break\<close>
  after its first pass (or by the exception that leaves the \<open>try\<close>), which drops the
  setup generator after the cleanup has run.
\<close>

fun builtin_setup_call_cleanup ::
  "deref_fn \<Rightarrow> 'w EngineContext \<Rightarrow> prolog_term list \<Rightarrow> Substitution \<Rightarrow> 'w gen" where
  "builtin_setup_call_cleanup deref engine [setup_goal0, goal0, cleanup_goal0] subst w =
     (let setup_goal = deref setup_goal0 subst; goal = deref goal0 subst;
          cleanup_goal = deref cleanup_goal0 subst in
      case solve_goals engine [setup_goal] subst w of
        Yield setup_subst w1 resume cl \<Rightarrow>
          yield_from (solve_goals engine [goal] setup_subst w1)
            (\<lambda>w2. let (r, w3) = run_cleanup engine cleanup_goal setup_subst w2
                   in finish (finally_after None r) (dropped cl w3))
            (\<lambda>e w2. let (r, w3) = run_cleanup engine cleanup_goal setup_subst w2
                   in finish (finally_after (Some e) r) (dropped cl w3))
            (\<lambda>(x, w2). let (r, w3) = run_cleanup engine cleanup_goal setup_subst w2
                   in (finally_after x r, dropped cl w3))
      | Stop w1 \<Rightarrow> Stop w1
      | Raise e w1 \<Rightarrow> Raise e w1)"
| "builtin_setup_call_cleanup deref engine args subst w = Raise (PyError ''ValueError'') w"

section \<open>DCG built-ins\<close>

text \<open>
  Modelled from the spec: the argument checks \<open>engine._check_instantiated\<close> and
  \<open>engine._check_type\<close> are not among the sources. An argument that dereferences to a
  variable raises \<open>instantiation_error\<close>; one that is not of the required kind raises
  \<open>type_error(Expected, Culprit)\<close>; error terms have the shape \<open>error(Formal, Context)\<close>.
  The class test \<open>isinstance(t, (Atom, Compound))\<close> is the predicate handed to
  \<open>check_type\<close>.
\<close>

definition prolog_error :: "prolog_term \<Rightarrow> string \<Rightarrow> exn" where
  "prolog_error formal context =
     PrologThrow (Compound ''error'' [formal, Compound ''context'' [Atom context]])"

definition check_instantiated ::
  "deref_fn \<Rightarrow> prolog_term \<Rightarrow> Substitution \<Rightarrow> string \<Rightarrow> exn option" where
  "check_instantiated deref t subst context =
     (case deref t subst of
        Variable n i \<Rightarrow> Some (prolog_error (Atom ''instantiation_error'') context)
      | _ \<Rightarrow> None)"

definition check_type ::
  "deref_fn \<Rightarrow> prolog_term \<Rightarrow> (prolog_term \<Rightarrow> bool) \<Rightarrow> string \<Rightarrow> Substitution \<Rightarrow> string
     \<Rightarrow> exn option" where
  "check_type deref t is_instance expected subst context =
     (if is_instance (deref t subst) then None
      else Some (prolog_error
                   (Compound ''type_error'' [Atom expected, deref t subst]) context))"

fun atom_or_compound :: "prolog_term \<Rightarrow> bool" where
  "atom_or_compound (Atom n) = True"
| "atom_or_compound (Compound f as) = True"
| "atom_or_compound t = False"

text \<open>
  \<open>_builtin_phrase_2\<close> and \<open>_builtin_phrase_3\<close>. The checks run at the first \<open>next\<close>, in
  the order of the source. The \<open>else\<close> branch that builds the goal reads \<open>.functor\<close> and
  \<open>.args\<close>, which only a compound has.
\<close>

fun builtin_phrase_2 ::
  "deref_fn \<Rightarrow> 'w EngineContext \<Rightarrow> prolog_term list \<Rightarrow> Substitution \<Rightarrow> 'w gen" where
  "builtin_phrase_2 deref engine [rule_set, input_list] subst w =
     (case check_instantiated deref rule_set subst ''phrase/2'' of
        Some e \<Rightarrow> Raise e w
      | None \<Rightarrow>
     (case check_type deref rule_set atom_or_compound ''callable'' subst ''phrase/2'' of
        Some e \<Rightarrow> Raise e w
      | None \<Rightarrow>
     (let rule_set_deref = deref rule_set subst; empty_list = List [] None in
      case (case rule_set_deref of
              Atom name \<Rightarrow> Inr (Compound name [input_list, empty_list])
            | Compound f as \<Rightarrow> Inr (Compound f (as @ [input_list, empty_list]))
            | _ \<Rightarrow> Inl (PyError ''AttributeError'')) of
        Inl e \<Rightarrow> Raise e w
      | Inr goal \<Rightarrow>
          (case check_predicate_exists engine goal ''phrase/2'' w of
             Some e \<Rightarrow> Raise e w
           | None \<Rightarrow> yield_from (solve_goals engine [goal] subst w) Stop Raise (\<lambda>x. x)))))"
| "builtin_phrase_2 deref engine args subst w = Raise (PyError ''ValueError'') w"

fun builtin_phrase_3 ::
  "deref_fn \<Rightarrow> 'w EngineContext \<Rightarrow> prolog_term list \<Rightarrow> Substitution \<Rightarrow> 'w gen" where
  "builtin_phrase_3 deref engine [rule_set, input_list, rest] subst w =
     (case check_instantiated deref rule_set subst ''phrase/3'' of
        Some e \<Rightarrow> Raise e w
      | None \<Rightarrow>
     (case check_type deref rule_set atom_or_compound ''callable'' subst ''phrase/3'' of
        Some e \<Rightarrow> Raise e w
      | None \<Rightarrow>
     (let rule_set_deref = deref rule_set subst in
      case (case rule_set_deref of
              Atom name \<Rightarrow> Inr (Compound name [input_list, rest])
            | Compound f as \<Rightarrow> Inr (Compound f (as @ [input_list, rest]))
            | _ \<Rightarrow> Inl (PyError ''AttributeError'')) of
        Inl e \<Rightarrow> Raise e w
      | Inr goal \<Rightarrow>
          (case check_predicate_exists engine goal ''phrase/3'' w of
             Some e \<Rightarrow> Raise e w
           | None \<Rightarrow> yield_from (solve_goals engine [goal] subst w) Stop Raise (\<lambda>x. x)))))"
| "builtin_phrase_3 deref engine args subst w = Raise (PyError ''ValueError'') w"

section \<open>Consumers\<close>

text \<open>
  Whoever holds a generator pulls solutions and, between two pulls, may run anything else
  (the rest of a conjunction, say), which changes the world. A consumer is a function of
  the solutions received so far and the world after the last one: \<open>Some w'\<close> resumes the
  generator in world \<open>w'\<close>, \<open>None\<close> closes it. \<open>run\<close> drives a generator with a consumer
  and returns the solutions it yielded, how the run ended and the final world.
\<close>

datatype ending = Exhausted | Raised exn | Closed "exn option"

type_synonym 'w consumer = "Substitution list \<Rightarrow> 'w \<Rightarrow> 'w option"

primrec run ::
  "'w step \<Rightarrow> 'w consumer \<Rightarrow> Substitution list \<Rightarrow> Substitution list \<times> ending \<times> 'w" where
  "run (Stop w) = (\<lambda>consumer seen. ([], Exhausted, w))"
| "run (Raise e w) = (\<lambda>consumer seen. ([], Raised e, w))"
| "run (Yield s w resume cl) = (\<lambda>consumer seen.
     (case consumer (seen @ [s]) w of
        None \<Rightarrow> ([s], Closed (fst (cl w)), snd (cl w))
      | Some w' \<Rightarrow>
          (case run (resume w') consumer (seen @ [s]) of
             (sols, fin, w9) \<Rightarrow> (s # sols, fin, w9))))"

text \<open>The ending of a run whose frame had a cleanup pending.\<close>

definition with_cleanup :: "ending \<Rightarrow> exn option \<Rightarrow> ending" where
  "with_cleanup fin raised =
     (case raised of
        None \<Rightarrow> fin
      | Some e \<Rightarrow> (case fin of Closed x \<Rightarrow> Closed (Some e) | _ \<Rightarrow> Raised e))"

section \<open>A small engine for examples\<close>

text \<open>
  The examples run the built-ins against a resolver that knows a handful of goals. Its
  world is a journal: \<open>note(T)\<close> writes the value of \<open>T\<close> to it and succeeds once, and
  \<open>watch(T)\<close> succeeds once and writes down when it is entered, asked for another
  solution, or closed. \<open>member(X, [..])\<close> binds \<open>X\<close> to each element in turn, \<open>throw(T)\<close> raises.
\<close>

text \<open>
  \<open>answers\<close> is the generator that yields the given substitutions in order and then
  stops, or raises the given exception; closing it has no effect.
\<close>

primrec answers :: "Substitution list \<Rightarrow> exn option \<Rightarrow> 'w gen" where
  "answers [] e = (\<lambda>w. case e of None \<Rightarrow> Stop w | Some x \<Rightarrow> Raise x w)"
| "answers (s # ss) e = (\<lambda>w. Yield s w (answers ss e) (\<lambda>w'. (None, w')))"

fun demo_deref :: deref_fn where
  "demo_deref (Variable n i) s = (case map_of s i of Some t \<Rightarrow> t | None \<Rightarrow> Variable n i)"
| "demo_deref t s = t"

fun demo_solve :: "prolog_term list \<Rightarrow> Substitution \<Rightarrow> prolog_term list gen" where
  "demo_solve [Atom a] s w = (if a = ''true'' then answers [s] None w else Stop w)"
| "demo_solve [Compound f [t]] s w =
     (if f = ''note'' then answers [s] None (w @ [demo_deref t s])
      else if f = ''throw'' then Raise (PrologThrow t) w
      else if f = ''watch'' then
        Yield s (w @ [Compound ''entered'' [t]])
          (\<lambda>w'. Stop (w' @ [Compound ''asked_again'' [t]]))
          (\<lambda>w'. (None, w' @ [Compound ''closed'' [t]]))
      else Stop w)"
| "demo_solve [Compound f [Variable n i, List ts None]] s w =
     (if f = ''member'' then answers (map (\<lambda>t. (i, t) # s) ts) None w else Stop w)"
| "demo_solve goals s w = Stop w"

definition demo_exists :: "prolog_term \<Rightarrow> string \<Rightarrow> prolog_term list \<Rightarrow> exn option" where
  "demo_exists goal context w =
     (case goal of
        Compound f as \<Rightarrow>
          (if f \<in> {''note'', ''throw'', ''watch'', ''member''} then None
           else Some (prolog_error
                  (Compound ''existence_error''
                     [Atom ''procedure'', Compound ''/'' [Atom f, Number (int (length as))]])
                  context))
      | _ \<Rightarrow> None)"

definition demo_engine :: "prolog_term list EngineContext" where
  "demo_engine =
     \<lparr>solve_goals = demo_solve, flatten_conjunction = (\<lambda>t. [t]),
      check_predicate_exists = demo_exists\<rparr>"

fun demo_unify :: unify_fn where
  "demo_unify (Variable n i) t s = Some ((i, t) # s)"
| "demo_unify t u s = (if t = u then Some s else None)"

text \<open>Two consumers: one pulls every solution, one closes after the first.\<close>

definition pull_all :: "'w consumer" where
  "pull_all seen w = Some w"

definition close_after_first :: "'w consumer" where
  "close_after_first seen w = None"

section \<open>The registry of built-ins\<close>

text \<open>
  Modelled from the spec: \<open>register_builtin\<close> is not among the sources. A built-in is
  identified by its name and arity, and the two \<open>register\<close> methods call
  \<open>register_builtin\<close> once for each. The registry is kept here as the list of registered
  indicators, in the order of the calls (\<open>CHR 0x5C\<close> is the backslash in the names of
  not-unifiable and negation).
\<close>

type_synonym indicator = "string \<times> nat"

definition register_builtin :: "indicator list \<Rightarrow> string \<Rightarrow> nat \<Rightarrow> indicator list" where
  "register_builtin registry name arity = registry @ [(name, arity)]"

definition ControlBuiltins_register :: "indicator list \<Rightarrow> indicator list" where
  "ControlBuiltins_register registry =
     (let r1 = register_builtin registry ''='' 2;
          r2 = register_builtin r1 (CHR 0x5C # ''='') 2;
          r3 = register_builtin r2 (CHR 0x5C # ''+'') 1;
          r4 = register_builtin r3 '';'' 2;
          r5 = register_builtin r4 ''->'' 2;
          r6 = register_builtin r5 '','' 2;
          r7 = register_builtin r6 ''call'' 1;
          r8 = register_builtin r7 ''once'' 1;
          r9 = register_builtin r8 ''true'' 0;
          r10 = register_builtin r9 ''fail'' 0;
          r11 = register_builtin r10 ''setup_call_cleanup'' 3
      in register_builtin r11 ''call_cleanup'' 2)"

definition DCGBuiltins_register :: "indicator list \<Rightarrow> indicator list" where
  "DCGBuiltins_register registry =
     register_builtin (register_builtin registry ''phrase'' 2) ''phrase'' 3"

section \<open>Predicate properties\<close>

text \<open>
  Modelled from the spec: \<open>predicate_property/2\<close> and the clause database are not among
  the sources (only the tests of \<open>predicate_property/2\<close> are). The database maps a
  predicate indicator to its clauses and its flags \<open>dynamic\<close>, \<open>multifile\<close> and
  \<open>discontiguous\<close>. \<open>predicate_properties\<close> is the list of atoms that
  \<open>predicate_property/2\<close> enumerates for its second argument: \<open>built_in\<close> and \<open>static\<close>
  for a registered built-in (as the tests expect of \<open>true/0\<close> and \<open>append/3\<close>);
  \<open>static\<close> alone for an indicator with no clauses and no dynamic declaration;
  otherwise \<open>dynamic\<close> or \<open>static\<close>, followed by \<open>multifile\<close> and \<open>discontiguous\<close> where
  declared.
\<close>

record predicate_entry =
  entry_clauses :: "(prolog_term \<times> prolog_term) list"
  is_dynamic :: bool
  is_multifile :: bool
  is_discontiguous :: bool

type_synonym database = "indicator \<rightharpoonup> predicate_entry"

definition no_entry :: predicate_entry where
  "no_entry =
     \<lparr>entry_clauses = [], is_dynamic = False, is_multifile = False, is_discontiguous = False\<rparr>"

definition entry_of :: "database \<Rightarrow> indicator \<Rightarrow> predicate_entry" where
  "entry_of db pi = (case db pi of None \<Rightarrow> no_entry | Some e \<Rightarrow> e)"

definition empty_database :: database where
  "empty_database = Map.empty"

datatype db_op =
    Assertz indicator "prolog_term \<times> prolog_term"
  | Declare_dynamic indicator
  | Declare_multifile indicator
  | Declare_discontiguous indicator

fun apply_op :: "database \<Rightarrow> db_op \<Rightarrow> database" where
  "apply_op db (Assertz pi c) =
     db(pi \<mapsto> (entry_of db pi)\<lparr>entry_clauses := entry_clauses (entry_of db pi) @ [c]\<rparr>)"
| "apply_op db (Declare_dynamic pi) = db(pi \<mapsto> (entry_of db pi)\<lparr>is_dynamic := True\<rparr>)"
| "apply_op db (Declare_multifile pi) = db(pi \<mapsto> (entry_of db pi)\<lparr>is_multifile := True\<rparr>)"
| "apply_op db (Declare_discontiguous pi) =
     db(pi \<mapsto> (entry_of db pi)\<lparr>is_discontiguous := True\<rparr>)"

fun gives_definition :: "db_op \<Rightarrow> indicator \<Rightarrow> bool" where
  "gives_definition (Assertz pi' c) pi = (pi' = pi)"
| "gives_definition (Declare_dynamic pi') pi = (pi' = pi)"
| "gives_definition op pi = False"

definition predicate_properties :: "indicator list \<Rightarrow> database \<Rightarrow> indicator \<Rightarrow> string list" where
  "predicate_properties registry db pi =
     (if pi \<in> set registry then [''built_in'', ''static'']
      else if entry_clauses (entry_of db pi) = [] \<and> \<not> is_dynamic (entry_of db pi)
        then [''static'']
      else (if is_dynamic (entry_of db pi) then [''dynamic''] else [''static''])
           @ (if is_multifile (entry_of db pi) then [''multifile''] else [])
           @ (if is_discontiguous (entry_of db pi) then [''discontiguous''] else []))"

section \<open>Conditional compilation\<close>

text \<open>
  Modelled from the spec: the reader behind \<open>consult\<close> is not among the sources (only
  its tests are). A source unit is a sequence of clauses and directives. The reader keeps
  a stack of open \<open>if\<close> blocks; \<open>:- if(Goal).\<close> pushes a block, \<open>:- else.\<close> flips the
  top one, \<open>:- endif.\<close> pops it, and a clause is loaded when no enclosing block excludes
  it. \<open>:- else.\<close> or \<open>:- endif.\<close> with no open block, a second \<open>:- else.\<close> in a block,
  and a block still open at the end of the unit raise a syntax error term. Whether the
  goal of an \<open>if\<close> holds is asked of the engine, a parameter here.
\<close>

datatype source_term = Clause prolog_term | Directive prolog_term

record cond_block =
  block_active :: bool
  branch_taken :: bool
  seen_else :: bool

definition currently_including :: "cond_block list \<Rightarrow> bool" where
  "currently_including stack = (case stack of [] \<Rightarrow> True | b # bs \<Rightarrow> block_active b)"

definition syntax_error :: "string \<Rightarrow> exn" where
  "syntax_error description =
     prolog_error (Compound ''syntax_error'' [Atom description]) ''consult/1''"

fun consult_terms ::
  "(prolog_term \<Rightarrow> bool) \<Rightarrow> cond_block list \<Rightarrow> prolog_term list \<Rightarrow> source_term list
     \<Rightarrow> exn + prolog_term list" where
  "consult_terms holds stack db [] =
     (if stack = [] then Inr db else Inl (syntax_error ''unclosed if directive''))"
| "consult_terms holds stack db (Clause c # rest) =
     consult_terms holds stack (if currently_including stack then db @ [c] else db) rest"
| "consult_terms holds stack db (Directive d # rest) =
     (case d of
        Compound f as \<Rightarrow>
          (if f = ''if'' \<and> length as = 1 then
             (if currently_including stack then
                consult_terms holds
                  (\<lparr>block_active = holds (as ! 0), branch_taken = holds (as ! 0),
                    seen_else = False\<rparr> # stack) db rest
              else
                consult_terms holds
                  (\<lparr>block_active = False, branch_taken = True, seen_else = False\<rparr> # stack)
                  db rest)
           else consult_terms holds stack db rest)
      | Atom a \<Rightarrow>
          (if a = ''else'' then
             (case stack of
                [] \<Rightarrow> Inl (syntax_error ''else without if'')
              | b # bs \<Rightarrow>
                  (if seen_else b then Inl (syntax_error ''multiple else in if block'')
                   else consult_terms holds
                          (\<lparr>block_active = \<not> branch_taken b, branch_taken = True,
                            seen_else = True\<rparr> # bs) db rest))
           else if a = ''endif'' then
             (case stack of
                [] \<Rightarrow> Inl (syntax_error ''endif without if'')
              | b # bs \<Rightarrow> consult_terms holds bs db rest)
           else consult_terms holds stack db rest)
      | _ \<Rightarrow> consult_terms holds stack db rest)"

definition consult_string :: "(prolog_term \<Rightarrow> bool) \<Rightarrow> source_term list \<Rightarrow> exn + prolog_term list" where
  "consult_string holds source = consult_terms holds [] [] source"

fun raises_error_term :: "exn + 'a \<Rightarrow> bool" where
  "raises_error_term (Inl (PrologThrow (Compound f [formal, context]))) = (f = ''error'')"
| "raises_error_term r = False"

text \<open>
  The faults of conditional compilation, read off a source unit alone: \<open>well_nested\<close>
  goes through the unit with one flag for each open \<open>:- if(...)\<close> block, set once the
  block has had its \<open>:- else.\<close>. A unit is well nested when every \<open>:- else.\<close> and
  \<open>:- endif.\<close> finds an open block, no block gets a second \<open>:- else.\<close>, and no block is
  open at the end. \<open>is_clause\<close> tells the clauses from the directives.
\<close>

fun is_clause :: "source_term \<Rightarrow> bool" where
  "is_clause (Clause c) = True"
| "is_clause (Directive d) = False"

fun well_nested :: "bool list \<Rightarrow> source_term list \<Rightarrow> bool" where
  "well_nested blocks [] = (blocks = [])"
| "well_nested blocks (Clause c # rest) = well_nested blocks rest"
| "well_nested blocks (Directive d # rest) =
     (case d of
        Compound f as \<Rightarrow>
          (if f = ''if'' \<and> length as = 1 then well_nested (False # blocks) rest
           else well_nested blocks rest)
      | Atom a \<Rightarrow>
          (if a = ''else'' then
             (case blocks of
                [] \<Rightarrow> False
              | had_else # outer \<Rightarrow> \<not> had_else \<and> well_nested (True # outer) rest)
           else if a = ''endif'' then
             (case blocks of [] \<Rightarrow> False | had_else # outer \<Rightarrow> well_nested outer rest)
           else well_nested blocks rest)
      | _ \<Rightarrow> well_nested blocks rest)"

section \<open>The resolver\<close>

text \<open>
  Modelled from the spec: the resolver (\<open>engine._solve_goals\<close>) is not among the sources.
  This is its goal evaluation procedure for \<open>true\<close>, \<open>fail\<close>, conjunction, cut,
  \<open>call/1\<close> and user predicates, with the cut barrier of predicate-call frames and the
  recursion depth limit. The clause database with renaming and head unification is the
  parameter \<open>clauses_for\<close>: for a goal and a substitution it gives, in clause order, the
  substitution after unifying the renamed head and the renamed body of every clause whose
  head unifies, or \<open>None\<close> when the predicate is unknown.

  An outcome lists the solutions in order, tells whether a cut was executed in the goal
  list, and holds the exception that ended the search, if one did. The first argument is
  the host stack that is left: every nested call takes one frame, and with none left
  Python raises RecursionError.
\<close>

type_synonym outcome = "Substitution list \<times> bool \<times> exn option"

record PrologInterpreter =
  max_recursion_depth :: nat
  deref_term :: deref_fn
  clauses_for :: "prolog_term \<Rightarrow> Substitution \<Rightarrow> (Substitution \<times> prolog_term) list option"

definition resource_error :: exn where
  "resource_error =
     prolog_error (Compound ''resource_error'' [Atom ''recursion_depth_exceeded''])
       ''recursion''"

definition existence_error :: "prolog_term \<Rightarrow> exn" where
  "existence_error goal =
     prolog_error
       (Compound ''existence_error''
          [Atom ''procedure'',
           (case goal of
              Compound f as \<Rightarrow> Compound ''/'' [Atom f, Number (int (length as))]
            | Atom a \<Rightarrow> Compound ''/'' [Atom a, Number 0]
            | t \<Rightarrow> t)])
       ''call''"

text \<open>
  The rest of a goal list is solved for each solution of its first goal, in order. A cut
  in the rest discards the solutions of the first goal that have not been used; an
  exception ends the search. The exception \<open>e\<close> that ends the first goal's own search is
  reached only after all its solutions have been used.
\<close>

fun then_each ::
  "(Substitution \<Rightarrow> outcome) \<Rightarrow> Substitution list \<Rightarrow> exn option \<Rightarrow> outcome" where
  "then_each k [] e = ([], False, e)"
| "then_each k (s # ss) e =
     (case k s of
        (r, was_cut, x) \<Rightarrow>
          (if x \<noteq> None \<or> was_cut then (r, was_cut, x)
           else (case then_each k ss e of (r2, c2, e2) \<Rightarrow> (r @ r2, c2, e2))))"

text \<open>
  The candidate clauses of one predicate call are tried in order. A cut in a body
  discards the candidates that follow; the frame is the barrier, so the cut is not
  reported further.
\<close>

fun try_clauses ::
  "(Substitution \<times> prolog_term \<Rightarrow> outcome) \<Rightarrow> (Substitution \<times> prolog_term) list
     \<Rightarrow> Substitution list \<times> exn option" where
  "try_clauses k [] = ([], None)"
| "try_clauses k (c # cs) =
     (case k c of
        (r, was_cut, x) \<Rightarrow>
          (if x \<noteq> None \<or> was_cut then (r, x)
           else (case try_clauses k cs of (r2, e2) \<Rightarrow> (r @ r2, e2))))"

text \<open>
  A predicate call opens a frame one level deeper; beyond the configured limit it raises
  \<open>resource_error(recursion_depth_exceeded)\<close>. An unknown predicate raises
  \<open>existence_error\<close>. \<open>solve_body\<close> is the resolver for the bodies.
\<close>

definition call_predicate ::
  "PrologInterpreter \<Rightarrow> (nat \<Rightarrow> prolog_term list \<Rightarrow> Substitution \<Rightarrow> outcome) \<Rightarrow> nat
     \<Rightarrow> prolog_term \<Rightarrow> Substitution \<Rightarrow> Substitution list \<times> exn option" where
  "call_predicate interp solve_body depth goal s =
     (if max_recursion_depth interp < depth + 1 then ([], Some resource_error)
      else
        (case clauses_for interp goal s of
           None \<Rightarrow> ([], Some (existence_error goal))
         | Some candidates \<Rightarrow>
             try_clauses (\<lambda>(s', body). solve_body (depth + 1) [body] s') candidates))"

text \<open>
  What a built-in sees of the resolver: \<open>_solve_goals\<close> is a generator of substitutions,
  here the generator of the \<open>answers\<close> of an outcome, which has no place for the cut.
  \<open>collect\<close> is the resolver pulling every solution of a built-in's generator.
\<close>

definition as_engine :: "(prolog_term list \<Rightarrow> Substitution \<Rightarrow> outcome) \<Rightarrow> unit EngineContext" where
  "as_engine solve_here =
     \<lparr>solve_goals = (\<lambda>goals s w. case solve_here goals s of (r, c, e) \<Rightarrow> answers r e w),
      flatten_conjunction = (\<lambda>t. [t]),
      check_predicate_exists = (\<lambda>goal context w. None)\<rparr>"

definition collect :: "unit step \<Rightarrow> Substitution list \<times> exn option" where
  "collect st =
     (case run st (\<lambda>seen w. Some w) [] of
        (r, Raised x, w) \<Rightarrow> (r, Some x)
      | (r, fin, w) \<Rightarrow> (r, None))"

text \<open>
  A term that is not a variable is its own dereference; only a variable is looked up.
\<close>

definition deref_goal :: "PrologInterpreter \<Rightarrow> prolog_term \<Rightarrow> Substitution \<Rightarrow> prolog_term" where
  "deref_goal interp g s = (case g of Variable n i \<Rightarrow> deref_term interp g s | _ \<Rightarrow> g)"

primrec solve :: "nat \<Rightarrow> PrologInterpreter \<Rightarrow> nat \<Rightarrow> prolog_term list \<Rightarrow> Substitution \<Rightarrow> outcome" where
  "solve 0 = (\<lambda>interp depth goals s. ([], False, Some (PyError ''RecursionError'')))"
| "solve (Suc stack) = (\<lambda>interp depth goals s.
     (case goals of
        [] \<Rightarrow> ([s], False, None)
      | g # gs \<Rightarrow>
          (case deref_goal interp g s of
             Atom a \<Rightarrow>
               (if a = ''true'' then solve stack interp depth gs s
                else if a = ''fail'' \<or> a = ''false'' then ([], False, None)
                else if a = ''!'' then
                  (case solve stack interp depth gs s of (r, c, e) \<Rightarrow> (r, True, e))
                else
                  (case call_predicate interp (solve stack interp) depth (Atom a) s of
                     (r, e) \<Rightarrow> then_each (solve stack interp depth gs) r e))
           | Compound f as \<Rightarrow>
               (if f = '','' \<and> length as = 2 then
                  solve stack interp depth (as ! 0 # as ! 1 # gs) s
                else if f = ''call'' \<and> length as = 1 then
                  (case collect (builtin_call (deref_goal interp)
                                  (as_engine (solve stack interp depth)) as s ()) of
                     (r, e) \<Rightarrow> then_each (solve stack interp depth gs) r e)
                else
                  (case call_predicate interp (solve stack interp) depth (Compound f as) s of
                     (r, e) \<Rightarrow> then_each (solve stack interp depth gs) r e))
           | Variable n i \<Rightarrow>
               ([], False, Some (prolog_error (Atom ''instantiation_error'') ''call''))
           | t \<Rightarrow>
               ([], False,
                Some (prolog_error (Compound ''type_error'' [Atom ''callable'', t]) ''call'')))))"

text \<open>The goals that are calls of a user predicate: neither a control construct nor \<open>call/1\<close>.\<close>

fun user_call :: "prolog_term \<Rightarrow> bool" where
  "user_call (Atom a) = (a \<notin> {''true'', ''fail'', ''false'', ''!''})"
| "user_call (Compound f as) =
     (\<not> (f = '','' \<and> length as = 2) \<and> \<not> (f = ''call'' \<and> length as = 1))"
| "user_call t = False"

text \<open>
  Two outcomes of one query under two limits: they are the same, or the first one ended
  in \<open>resource_error\<close> after solutions with which the second one starts.
\<close>

definition same_or_resource_error :: "outcome \<Rightarrow> outcome \<Rightarrow> bool" where
  "same_or_resource_error a b \<longleftrightarrow>
     a = b \<or> (snd (snd a) = Some resource_error \<and> take (length (fst a)) (fst b) = fst a)"

definition same_or_resource_error2 ::
  "Substitution list \<times> exn option \<Rightarrow> Substitution list \<times> exn option \<Rightarrow> bool" where
  "same_or_resource_error2 a b \<longleftrightarrow>
     a = b \<or> (snd a = Some resource_error \<and> take (length (fst a)) (fst b) = fst a)"

text \<open>
  A program for the examples, in Peano numbers:
  \<^verbatim>\<open>
  count_down(0).
  count_down(s(N)) :- count_down(N).
  infinite :- infinite.
  p(1).  p(2).
  q :- call((p(X), !)).      q.
  r :- p(X), !.              r.
  \<close>
  \<open>X\<close> is the variable 0.
\<close>

fun peano :: "nat \<Rightarrow> prolog_term" where
  "peano 0 = Atom ''0''"
| "peano (Suc n) = Compound ''s'' [peano n]"

fun demo_clauses ::
  "prolog_term \<Rightarrow> Substitution \<Rightarrow> (Substitution \<times> prolog_term) list option" where
  "demo_clauses (Atom a) s =
     (if a = ''infinite'' then Some [(s, Atom ''infinite'')]
      else if a = ''q'' then
        Some [(s, Compound ''call''
                    [Compound '','' [Compound ''p'' [Variable ''X'' 0], Atom ''!'']]),
              (s, Atom ''true'')]
      else if a = ''r'' then
        Some [(s, Compound '','' [Compound ''p'' [Variable ''X'' 0], Atom ''!'']),
              (s, Atom ''true'')]
      else None)"
| "demo_clauses (Compound f [t]) s =
     (if f = ''count_down'' then
        (case t of
           Atom z \<Rightarrow> (if z = ''0'' then Some [(s, Atom ''true'')] else Some [])
         | Compound g [u] \<Rightarrow> (if g = ''s'' then Some [(s, Compound ''count_down'' [u])] else Some [])
         | _ \<Rightarrow> Some [])
      else if f = ''p'' then
        (case t of
           Variable n i \<Rightarrow> Some [((i, Number 1) # s, Atom ''true''), ((i, Number 2) # s, Atom ''true'')]
         | _ \<Rightarrow> Some [])
      else None)"
| "demo_clauses t s = None"

definition demo_interpreter :: "nat \<Rightarrow> PrologInterpreter" where
  "demo_interpreter limit =
     \<lparr>max_recursion_depth = limit, deref_term = demo_deref, clauses_for = demo_clauses\<rparr>"

section \<open>Lemmas\<close>

lemma yield_from_tail: "yield_from st Stop Raise (\<lambda>x. x) = st"
  by (induction st) auto

lemma run_yield_from:
  "run (yield_from st on_return on_raise on_close) consumer seen =
     (case run st consumer seen of
        (sols, Exhausted, w) \<Rightarrow>
          (case run (on_return w) consumer (seen @ sols) of
             (sols', fin, w9) \<Rightarrow> (sols @ sols', fin, w9))
      | (sols, Raised e, w) \<Rightarrow>
          (case run (on_raise e w) consumer (seen @ sols) of
             (sols', fin, w9) \<Rightarrow> (sols @ sols', fin, w9))
      | (sols, Closed x, w) \<Rightarrow>
          (sols, Closed (fst (on_close (x, w))), snd (on_close (x, w))))"
proof (induction st arbitrary: seen)
  case (Stop w)
  show ?case by (simp split: prod.splits)
next
  case (Raise e w)
  show ?case by (simp split: prod.splits)
next
  case (Yield s w resume cl)
  show ?case
  proof (cases "consumer (seen @ [s]) w")
    case None
    then show ?thesis by simp
  next
    case (Some w')
    have "resume w' \<in> range resume" by simp
    from Yield.IH [OF this, of "seen @ [s]"] Some show ?thesis
      by (simp split: prod.splits ending.splits)
  qed
qed


lemma run_call_cleanup:
  "run (builtin_call_cleanup deref engine [goal, cleanup_goal] subst w) consumer seen =
     (case run (solve_goals engine [deref goal subst] subst w) consumer seen of
        (sols, fin, w2) \<Rightarrow>
          (case run_cleanup engine (deref cleanup_goal subst) subst w2 of
             (raised, w3) \<Rightarrow> (sols, with_cleanup fin raised, w3)))"
  by (simp add: Let_def run_yield_from with_cleanup_def finally_after_def finish_def
        split: prod.splits ending.splits option.splits)

lemma run_setup_call_cleanup:
  assumes "solve_goals engine [deref setup_goal subst] subst w = Yield setup_subst w1 resume cl"
  shows "run (builtin_setup_call_cleanup deref engine [setup_goal, goal, cleanup_goal] subst w)
           consumer seen =
     (case run (solve_goals engine [deref goal subst] setup_subst w1) consumer seen of
        (sols, fin, w2) \<Rightarrow>
          (case run_cleanup engine (deref cleanup_goal subst) setup_subst w2 of
             (raised, w3) \<Rightarrow> (sols, with_cleanup fin raised, dropped cl w3)))"
  using assms
  by (simp add: Let_def run_yield_from with_cleanup_def finally_after_def finish_def
        split: prod.splits ending.splits option.splits)

section \<open>\<open>\=/2\<close>\<close>

text \<open>
  C10. For all terms \<open>A\<close>, \<open>B\<close> and every substitution \<open>S\<close>, \<open>\=/2\<close> fails exactly when
  \<open>unify A B S\<close> succeeds and succeeds with \<open>S\<close> itself exactly when \<open>unify A B S\<close> fails;
  these are its only results, so the substitution is never extended or changed.
\<close>

theorem not_unifiable_frame:
  "(builtin_not_unifiable unify [A, B] S = Inr None \<longleftrightarrow> unify A B S \<noteq> None)
   \<and> (builtin_not_unifiable unify [A, B] S = Inr (Some S) \<longleftrightarrow> unify A B S = None)
   \<and> (builtin_not_unifiable unify [A, B] S = Inr None
        \<or> builtin_not_unifiable unify [A, B] S = Inr (Some S))"
  by simp

theorem not_unifiable_frame_witness:
  "demo_unify (Variable ''X'' 0) (Atom ''a'') [] = Some [(0, Atom ''a'')]
   \<and> builtin_not_unifiable demo_unify [Variable ''X'' 0, Atom ''a''] [] = Inr None
   \<and> demo_unify (Atom ''a'') (Atom ''b'') [(1, Number 7)] = None
   \<and> builtin_not_unifiable demo_unify [Atom ''a'', Atom ''b''] [(1, Number 7)]
       = Inr (Some [(1, Number 7)])"
  using not_unifiable_frame [of demo_unify "Variable ''X'' 0" "Atom ''a''" "[]"]
    not_unifiable_frame [of demo_unify "Atom ''a''" "Atom ''b''" "[(1, Number 7)]"]
  by simp

section \<open>Negation as failure\<close>

text \<open>
  C3. Solving \<open>\+ G\<close> under \<open>S\<close>: if \<open>G\<close> has a solution (its generator yields), the
  result is the empty iterator; if \<open>G\<close> has none (its generator stops), the result holds
  exactly \<open>S\<close>, whatever bindings the search for \<open>G\<close> made. An exception raised before
  the first solution of \<open>G\<close> is passed on.
\<close>

theorem negation_as_failure_result:
  "(\<forall>s w1 resume cl. solve_goals engine [G] S w = Yield s w1 resume cl \<longrightarrow>
      negation_as_failure engine [G] S w = (Inr [], dropped cl w1))
   \<and> (\<forall>w1. solve_goals engine [G] S w = Stop w1 \<longrightarrow>
      negation_as_failure engine [G] S w = (Inr [S], w1))
   \<and> (\<forall>e w1. solve_goals engine [G] S w = Raise e w1 \<longrightarrow>
      negation_as_failure engine [G] S w = (Inl e, w1))"
  by simp

theorem negation_as_failure_result_witness:
  "negation_as_failure demo_engine
     [Compound ''member'' [Variable ''X'' 0, List [Atom ''a'', Atom ''b''] None]] [] []
     = (Inr [], [])
   \<and> negation_as_failure demo_engine [Atom ''fail''] [(1, Number 7)] []
     = (Inr [[(1, Number 7)]], [])
   \<and> negation_as_failure demo_engine [Compound ''throw'' [Atom ''boom'']] [] []
     = (Inl (PrologThrow (Atom ''boom'')), [])"
  using negation_as_failure_result [of demo_engine
      "Compound ''member'' [Variable ''X'' 0, List [Atom ''a'', Atom ''b''] None]" "[]" "[]"]
    negation_as_failure_result [of demo_engine "Atom ''fail''" "[(1, Number 7)]" "[]"]
    negation_as_failure_result [of demo_engine "Compound ''throw'' [Atom ''boom'']" "[]" "[]"]
  by (simp add: demo_engine_def dropped_def)

section \<open>Disjunction and if-then-else\<close>

text \<open>
  C1. For a goal \<open>(Cond -> Then ; Else)\<close> and a substitution \<open>S\<close>, under every consumer:
  if \<open>Cond\<close> has a solution, the solutions are those of \<open>Then\<close> under the first
  substitution of \<open>Cond\<close>, and the condition's generator is never asked for a second one
  (it is only dropped at the end); if \<open>Cond\<close> has none, the solutions are those of
  \<open>Else\<close> under \<open>S\<close>. When the left argument is not a \<open>->/2\<close> compound, the solutions
  are those of the left disjunct followed by those of the right one, both under \<open>S\<close>; the
  right one is tried when the left one is exhausted.
\<close>

theorem disjunction_solutions:
  "(\<forall>cs w1 resume cl. solve_goals engine [Cond] S w = Yield cs w1 resume cl \<longrightarrow>
      run (builtin_disjunction engine [Compound ''->'' [Cond, Then], Else] S w) consumer seen
        = (case run (solve_goals engine [Then] cs w1) consumer seen of
             (sols, fin, w2) \<Rightarrow> (sols, fin, dropped cl w2)))
   \<and> (\<forall>w1. solve_goals engine [Cond] S w = Stop w1 \<longrightarrow>
      run (builtin_disjunction engine [Compound ''->'' [Cond, Then], Else] S w) consumer seen
        = run (solve_goals engine [Else] S w1) consumer seen)
   \<and> (\<not> is_if_then Lft \<longrightarrow>
      run (builtin_disjunction engine [Lft, Rgt] S w) consumer seen
        = (case run (solve_goals engine [Lft] S w) consumer seen of
             (ls, Exhausted, w1) \<Rightarrow>
               (case run (solve_goals engine [Rgt] S w1) consumer (seen @ ls) of
                  (rs, fin, w2) \<Rightarrow> (ls @ rs, fin, w2))
           | (ls, fin, w1) \<Rightarrow> (ls, fin, w1)))"
proof (intro conjI allI impI)
  fix cs w1 resume cl
  assume "solve_goals engine [Cond] S w = Yield cs w1 resume cl"
  then show "run (builtin_disjunction engine [Compound ''->'' [Cond, Then], Else] S w)
               consumer seen
             = (case run (solve_goals engine [Then] cs w1) consumer seen of
                  (sols, fin, w2) \<Rightarrow> (sols, fin, dropped cl w2))"
    by (simp add: is_if_then_def run_yield_from split: prod.splits ending.splits)
next
  fix w1
  assume "solve_goals engine [Cond] S w = Stop w1"
  then show "run (builtin_disjunction engine [Compound ''->'' [Cond, Then], Else] S w)
               consumer seen
             = run (solve_goals engine [Else] S w1) consumer seen"
    by (simp add: is_if_then_def yield_from_tail)
next
  assume "\<not> is_if_then Lft"
  then show "run (builtin_disjunction engine [Lft, Rgt] S w) consumer seen
        = (case run (solve_goals engine [Lft] S w) consumer seen of
             (ls, Exhausted, w1) \<Rightarrow>
               (case run (solve_goals engine [Rgt] S w1) consumer (seen @ ls) of
                  (rs, fin, w2) \<Rightarrow> (ls @ rs, fin, w2))
           | (ls, fin, w1) \<Rightarrow> (ls, fin, w1))"
    by (simp add: run_yield_from yield_from_tail split: prod.splits ending.splits)
qed

theorem disjunction_solutions_witness:
  "run (builtin_disjunction demo_engine
          [Compound ''->'' [Compound ''watch'' [Atom ''k''],
                            Compound ''member'' [Variable ''Y'' 1, List [Atom ''c'', Atom ''d''] None]],
           Compound ''note'' [Atom ''e'']] [] []) pull_all []
     = ([[(1, Atom ''c'')], [(1, Atom ''d'')]], Exhausted,
        [Compound ''entered'' [Atom ''k''], Compound ''closed'' [Atom ''k'']])
   \<and> run (builtin_disjunction demo_engine
          [Compound ''->'' [Atom ''fail'', Compound ''note'' [Atom ''t'']],
           Compound ''member'' [Variable ''Y'' 1, List [Atom ''c''] None]] [] []) pull_all []
     = ([[(1, Atom ''c'')]], Exhausted, [])
   \<and> run (builtin_disjunction demo_engine
          [Compound ''member'' [Variable ''X'' 0, List [Atom ''a'', Atom ''b''] None],
           Compound ''member'' [Variable ''X'' 0, List [Atom ''c''] None]] [] []) pull_all []
     = ([[(0, Atom ''a'')], [(0, Atom ''b'')], [(0, Atom ''c'')]], Exhausted, [])"
  using disjunction_solutions [of demo_engine "Compound ''watch'' [Atom ''k'']" "[]" "[]"
      "Compound ''member'' [Variable ''Y'' 1, List [Atom ''c'', Atom ''d''] None]"
      "Compound ''note'' [Atom ''e'']" pull_all "[]"
      "Compound ''member'' [Variable ''X'' 0, List [Atom ''a'', Atom ''b''] None]"
      "Compound ''member'' [Variable ''X'' 0, List [Atom ''c''] None]"]
    disjunction_solutions [of demo_engine "Atom ''fail''" "[]" "[]"
      "Compound ''note'' [Atom ''t'']"
      "Compound ''member'' [Variable ''Y'' 1, List [Atom ''c''] None]" pull_all "[]"
      "Atom ''x''" "Atom ''y''"]
  by (simp add: demo_engine_def dropped_def pull_all_def is_if_then_def)

section \<open>Cleanup\<close>

text \<open>
  C2. \<open>setup_call_cleanup(Setup, Goal, Cleanup)\<close>. If \<open>Setup\<close> fails, the call fails in
  the world \<open>Setup\<close> left and the cleanup is never run. If \<open>Setup\<close> succeeds with
  \<open>setup_subst\<close>, then under every consumer, that is on every path (the solutions of
  \<open>Goal\<close> are exhausted, the consumer closes the generator early, an exception of \<open>Goal\<close>
  passes through, \<open>Goal\<close> fails without a solution), the run is the run of \<open>Goal\<close> under
  \<open>setup_subst\<close> followed by one run of the cleanup under \<open>setup_subst\<close>, after which
  the setup generator is dropped.
\<close>

theorem setup_call_cleanup_once:
  "(\<forall>w1. solve_goals engine [deref Setup S] S w = Stop w1 \<longrightarrow>
      builtin_setup_call_cleanup deref engine [Setup, Goal, Cleanup] S w = Stop w1)
   \<and> (\<forall>setup_subst w1 resume cl.
        solve_goals engine [deref Setup S] S w = Yield setup_subst w1 resume cl \<longrightarrow>
        run (builtin_setup_call_cleanup deref engine [Setup, Goal, Cleanup] S w) consumer seen
          = (case run (solve_goals engine [deref Goal S] setup_subst w1) consumer seen of
               (sols, fin, w2) \<Rightarrow>
                 (case run_cleanup engine (deref Cleanup S) setup_subst w2 of
                    (raised, w3) \<Rightarrow> (sols, with_cleanup fin raised, dropped cl w3))))"
proof (intro conjI allI impI)
  fix w1
  assume "solve_goals engine [deref Setup S] S w = Stop w1"
  then show "builtin_setup_call_cleanup deref engine [Setup, Goal, Cleanup] S w = Stop w1"
    by simp
next
  fix setup_subst w1 resume cl
  assume "solve_goals engine [deref Setup S] S w = Yield setup_subst w1 resume cl"
  then show "run (builtin_setup_call_cleanup deref engine [Setup, Goal, Cleanup] S w)
               consumer seen
          = (case run (solve_goals engine [deref Goal S] setup_subst w1) consumer seen of
               (sols, fin, w2) \<Rightarrow>
                 (case run_cleanup engine (deref Cleanup S) setup_subst w2 of
                    (raised, w3) \<Rightarrow> (sols, with_cleanup fin raised, dropped cl w3)))"
    by (simp add: Let_def run_yield_from with_cleanup_def finally_after_def finish_def
          split: prod.splits ending.splits option.splits)
qed

theorem setup_call_cleanup_once_witness:
  "run (builtin_setup_call_cleanup demo_deref demo_engine
          [Compound ''member'' [Variable ''X'' 0, List [Atom ''a'', Atom ''b''] None],
           Compound ''member'' [Variable ''Y'' 1, List [Atom ''c'', Atom ''d''] None],
           Compound ''note'' [Variable ''X'' 0]] [] []) pull_all []
     = ([[(1, Atom ''c''), (0, Atom ''a'')], [(1, Atom ''d''), (0, Atom ''a'')]], Exhausted,
        [Atom ''a''])
   \<and> run (builtin_setup_call_cleanup demo_deref demo_engine
          [Compound ''member'' [Variable ''X'' 0, List [Atom ''a'', Atom ''b''] None],
           Compound ''member'' [Variable ''Y'' 1, List [Atom ''c'', Atom ''d''] None],
           Compound ''note'' [Variable ''X'' 0]] [] []) close_after_first []
     = ([[(1, Atom ''c''), (0, Atom ''a'')]], Closed None, [Atom ''a''])
   \<and> run (builtin_setup_call_cleanup demo_deref demo_engine
          [Compound ''member'' [Variable ''X'' 0, List [Atom ''a'', Atom ''b''] None],
           Compound ''throw'' [Atom ''boom''],
           Compound ''note'' [Variable ''X'' 0]] [] []) pull_all []
     = ([], Raised (PrologThrow (Atom ''boom'')), [Atom ''a''])
   \<and> run (builtin_setup_call_cleanup demo_deref demo_engine
          [Compound ''member'' [Variable ''X'' 0, List [Atom ''a'', Atom ''b''] None],
           Atom ''fail'',
           Compound ''note'' [Variable ''X'' 0]] [] []) pull_all []
     = ([], Exhausted, [Atom ''a''])
   \<and> builtin_setup_call_cleanup demo_deref demo_engine
          [Atom ''fail'', Atom ''true'', Compound ''note'' [Atom ''z'']] [] [] = Stop []"
  using setup_call_cleanup_once [of demo_engine demo_deref
      "Compound ''member'' [Variable ''X'' 0, List [Atom ''a'', Atom ''b''] None]" "[]" "[]"
      "Compound ''member'' [Variable ''Y'' 1, List [Atom ''c'', Atom ''d''] None]"
      "Compound ''note'' [Variable ''X'' 0]" pull_all "[]"]
    setup_call_cleanup_once [of demo_engine demo_deref
      "Compound ''member'' [Variable ''X'' 0, List [Atom ''a'', Atom ''b''] None]" "[]" "[]"
      "Compound ''member'' [Variable ''Y'' 1, List [Atom ''c'', Atom ''d''] None]"
      "Compound ''note'' [Variable ''X'' 0]" close_after_first "[]"]
    setup_call_cleanup_once [of demo_engine demo_deref
      "Compound ''member'' [Variable ''X'' 0, List [Atom ''a'', Atom ''b''] None]" "[]" "[]"
      "Compound ''throw'' [Atom ''boom'']"
      "Compound ''note'' [Variable ''X'' 0]" pull_all "[]"]
    setup_call_cleanup_once [of demo_engine demo_deref
      "Compound ''member'' [Variable ''X'' 0, List [Atom ''a'', Atom ''b''] None]" "[]" "[]"
      "Atom ''fail''"
      "Compound ''note'' [Variable ''X'' 0]" pull_all "[]"]
    setup_call_cleanup_once [of demo_engine demo_deref "Atom ''fail''" "[]" "[]"
      "Atom ''true''" "Compound ''note'' [Atom ''z'']" pull_all "[]"]
  by (simp add: demo_engine_def dropped_def pull_all_def close_after_first_def
        run_cleanup_def with_cleanup_def)

text \<open>
  C9. In \<open>call_cleanup/2\<close> and \<open>setup_call_cleanup/3\<close> the cleanup goal is asked for its
  first solution only, and whether it has one does not matter: if the cleanup succeeds
  its generator is dropped without being resumed, if it fails nothing is raised, and in
  both cases the solutions of \<open>Goal\<close> and the way the run ends are those of \<open>Goal\<close>
  alone.
\<close>

theorem cleanup_outcome_ignored:
  "(\<forall>sols fin w2.
      run (solve_goals engine [deref Goal S] S w) consumer seen = (sols, fin, w2) \<longrightarrow>
      (\<forall>cs w3 resume cl.
         solve_goals engine [deref Cleanup S] S w2 = Yield cs w3 resume cl \<longrightarrow>
         run (builtin_call_cleanup deref engine [Goal, Cleanup] S w) consumer seen
           = (sols, fin, dropped cl w3))
      \<and> (\<forall>w3.
         solve_goals engine [deref Cleanup S] S w2 = Stop w3 \<longrightarrow>
         run (builtin_call_cleanup deref engine [Goal, Cleanup] S w) consumer seen
           = (sols, fin, w3)))
   \<and> (\<forall>setup_subst w1 resume1 cl1 sols fin w2.
      solve_goals engine [deref Setup S] S w = Yield setup_subst w1 resume1 cl1 \<longrightarrow>
      run (solve_goals engine [deref Goal S] setup_subst w1) consumer seen = (sols, fin, w2) \<longrightarrow>
      (\<forall>cs w3 resume cl.
         solve_goals engine [deref Cleanup S] setup_subst w2 = Yield cs w3 resume cl \<longrightarrow>
         run (builtin_setup_call_cleanup deref engine [Setup, Goal, Cleanup] S w) consumer seen
           = (sols, fin, dropped cl1 (dropped cl w3)))
      \<and> (\<forall>w3.
         solve_goals engine [deref Cleanup S] setup_subst w2 = Stop w3 \<longrightarrow>
         run (builtin_setup_call_cleanup deref engine [Setup, Goal, Cleanup] S w) consumer seen
           = (sols, fin, dropped cl1 w3)))"
proof (intro conjI allI impI)
  fix sols fin w2 cs w3 resume cl
  assume "run (solve_goals engine [deref Goal S] S w) consumer seen = (sols, fin, w2)"
    and "solve_goals engine [deref Cleanup S] S w2 = Yield cs w3 resume cl"
  then show "run (builtin_call_cleanup deref engine [Goal, Cleanup] S w) consumer seen
               = (sols, fin, dropped cl w3)"
    unfolding run_call_cleanup by (simp add: run_cleanup_def with_cleanup_def)
next
  fix sols fin w2 w3
  assume "run (solve_goals engine [deref Goal S] S w) consumer seen = (sols, fin, w2)"
    and "solve_goals engine [deref Cleanup S] S w2 = Stop w3"
  then show "run (builtin_call_cleanup deref engine [Goal, Cleanup] S w) consumer seen
               = (sols, fin, w3)"
    unfolding run_call_cleanup by (simp add: run_cleanup_def with_cleanup_def)
next
  fix setup_subst w1 resume1 cl1 sols fin w2 cs w3 resume cl
  assume su: "solve_goals engine [deref Setup S] S w = Yield setup_subst w1 resume1 cl1"
    and "run (solve_goals engine [deref Goal S] setup_subst w1) consumer seen = (sols, fin, w2)"
    and "solve_goals engine [deref Cleanup S] setup_subst w2 = Yield cs w3 resume cl"
  then show "run (builtin_setup_call_cleanup deref engine [Setup, Goal, Cleanup] S w)
               consumer seen = (sols, fin, dropped cl1 (dropped cl w3))"
    unfolding run_setup_call_cleanup [where deref = deref and setup_goal = Setup and subst = S, OF su]
    by (simp add: run_cleanup_def with_cleanup_def)
next
  fix setup_subst w1 resume1 cl1 sols fin w2 w3
  assume su: "solve_goals engine [deref Setup S] S w = Yield setup_subst w1 resume1 cl1"
    and "run (solve_goals engine [deref Goal S] setup_subst w1) consumer seen = (sols, fin, w2)"
    and "solve_goals engine [deref Cleanup S] setup_subst w2 = Stop w3"
  then show "run (builtin_setup_call_cleanup deref engine [Setup, Goal, Cleanup] S w)
               consumer seen = (sols, fin, dropped cl1 w3)"
    unfolding run_setup_call_cleanup [where deref = deref and setup_goal = Setup and subst = S, OF su]
    by (simp add: run_cleanup_def with_cleanup_def)
qed

theorem cleanup_outcome_ignored_witness:
  "run (builtin_call_cleanup demo_deref demo_engine
          [Compound ''member'' [Variable ''Y'' 1, List [Atom ''c'', Atom ''d''] None],
           Compound ''watch'' [Atom ''k'']] [] []) pull_all []
     = ([[(1, Atom ''c'')], [(1, Atom ''d'')]], Exhausted,
        [Compound ''entered'' [Atom ''k''], Compound ''closed'' [Atom ''k'']])
   \<and> run (builtin_call_cleanup demo_deref demo_engine
          [Compound ''member'' [Variable ''Y'' 1, List [Atom ''c'', Atom ''d''] None],
           Atom ''fail''] [] []) pull_all []
     = ([[(1, Atom ''c'')], [(1, Atom ''d'')]], Exhausted, [])
   \<and> run (builtin_setup_call_cleanup demo_deref demo_engine
          [Atom ''true'',
           Compound ''member'' [Variable ''Y'' 1, List [Atom ''c'', Atom ''d''] None],
           Compound ''watch'' [Atom ''k'']] [] []) pull_all []
     = ([[(1, Atom ''c'')], [(1, Atom ''d'')]], Exhausted,
        [Compound ''entered'' [Atom ''k''], Compound ''closed'' [Atom ''k'']])
   \<and> run (builtin_setup_call_cleanup demo_deref demo_engine
          [Atom ''true'',
           Compound ''member'' [Variable ''Y'' 1, List [Atom ''c'', Atom ''d''] None],
           Atom ''fail''] [] []) pull_all []
     = ([[(1, Atom ''c'')], [(1, Atom ''d'')]], Exhausted, [])"
  using cleanup_outcome_ignored [where engine = demo_engine and deref = demo_deref
      and Goal = "Compound ''member'' [Variable ''Y'' 1, List [Atom ''c'', Atom ''d''] None]"
      and Cleanup = "Compound ''watch'' [Atom ''k'']" and Setup = "Atom ''true''"
      and S = "[]" and w = "[]" and consumer = pull_all and seen = "[]"]
    cleanup_outcome_ignored [where engine = demo_engine and deref = demo_deref
      and Goal = "Compound ''member'' [Variable ''Y'' 1, List [Atom ''c'', Atom ''d''] None]"
      and Cleanup = "Atom ''fail''" and Setup = "Atom ''true''"
      and S = "[]" and w = "[]" and consumer = pull_all and seen = "[]"]
  by (simp add: demo_engine_def dropped_def pull_all_def)

section \<open>\<open>phrase/2\<close> and \<open>phrase/3\<close>\<close>

text \<open>
  C6. When \<open>Body\<close> dereferences to an atom or a compound and the existence check lets
  the expanded goal pass, \<open>phrase(Body, List)\<close> is the generator of the goal made by
  appending \<open>List\<close> and \<open>[]\<close> to the arguments of \<open>Body\<close> (an atom becomes a compound
  of two arguments), and \<open>phrase(Body, List, Rest)\<close> that of the goal made by appending
  \<open>List\<close> and \<open>Rest\<close>. An unbound \<open>Body\<close> raises \<open>instantiation_error\<close>, any other
  term raises \<open>type_error(callable, Body)\<close>, and an error of the existence check is
  raised by the first step, before any solution.
\<close>

theorem phrase_expansion:
  "(\<forall>a. deref Body S = Atom a \<longrightarrow>
      (check_predicate_exists engine (Compound a [Lst, List [] None]) ''phrase/2'' w = None \<longrightarrow>
         builtin_phrase_2 deref engine [Body, Lst] S w
           = solve_goals engine [Compound a [Lst, List [] None]] S w)
      \<and> (check_predicate_exists engine (Compound a [Lst, Rest]) ''phrase/3'' w = None \<longrightarrow>
         builtin_phrase_3 deref engine [Body, Lst, Rest] S w
           = solve_goals engine [Compound a [Lst, Rest]] S w)
      \<and> (\<forall>e. check_predicate_exists engine (Compound a [Lst, List [] None]) ''phrase/2'' w
                = Some e \<longrightarrow>
         builtin_phrase_2 deref engine [Body, Lst] S w = Raise e w)
      \<and> (\<forall>e. check_predicate_exists engine (Compound a [Lst, Rest]) ''phrase/3'' w = Some e \<longrightarrow>
         builtin_phrase_3 deref engine [Body, Lst, Rest] S w = Raise e w))
   \<and> (\<forall>f as. deref Body S = Compound f as \<longrightarrow>
      (check_predicate_exists engine (Compound f (as @ [Lst, List [] None])) ''phrase/2'' w
         = None \<longrightarrow>
         builtin_phrase_2 deref engine [Body, Lst] S w
           = solve_goals engine [Compound f (as @ [Lst, List [] None])] S w)
      \<and> (check_predicate_exists engine (Compound f (as @ [Lst, Rest])) ''phrase/3'' w = None \<longrightarrow>
         builtin_phrase_3 deref engine [Body, Lst, Rest] S w
           = solve_goals engine [Compound f (as @ [Lst, Rest])] S w)
      \<and> (\<forall>e. check_predicate_exists engine (Compound f (as @ [Lst, List [] None])) ''phrase/2'' w
                = Some e \<longrightarrow>
         builtin_phrase_2 deref engine [Body, Lst] S w = Raise e w)
      \<and> (\<forall>e. check_predicate_exists engine (Compound f (as @ [Lst, Rest])) ''phrase/3'' w
                = Some e \<longrightarrow>
         builtin_phrase_3 deref engine [Body, Lst, Rest] S w = Raise e w))
   \<and> (\<forall>n i. deref Body S = Variable n i \<longrightarrow>
      builtin_phrase_2 deref engine [Body, Lst] S w
        = Raise (prolog_error (Atom ''instantiation_error'') ''phrase/2'') w
      \<and> builtin_phrase_3 deref engine [Body, Lst, Rest] S w
        = Raise (prolog_error (Atom ''instantiation_error'') ''phrase/3'') w)
   \<and> (\<not> atom_or_compound (deref Body S) \<and> (\<forall>n i. deref Body S \<noteq> Variable n i) \<longrightarrow>
      builtin_phrase_2 deref engine [Body, Lst] S w
        = Raise (prolog_error (Compound ''type_error'' [Atom ''callable'', deref Body S])
                   ''phrase/2'') w
      \<and> builtin_phrase_3 deref engine [Body, Lst, Rest] S w
        = Raise (prolog_error (Compound ''type_error'' [Atom ''callable'', deref Body S])
                   ''phrase/3'') w)"
  by (cases "deref Body S")
     (simp_all add: check_instantiated_def check_type_def yield_from_tail)

theorem phrase_expansion_witness:
  "run (builtin_phrase_3 demo_deref demo_engine
          [Variable ''B'' 5, Variable ''X'' 0, List [Atom ''a'', Atom ''b''] None]
          [(5, Atom ''member'')] []) pull_all []
     = ([[(0, Atom ''a''), (5, Atom ''member'')], [(0, Atom ''b''), (5, Atom ''member'')]],
        Exhausted, [])
   \<and> builtin_phrase_2 demo_deref demo_engine [Atom ''member'', Variable ''X'' 0] [] []
     = Stop []
   \<and> builtin_phrase_2 demo_deref demo_engine [Atom ''greeting'', List [] None] [] []
     = Raise (prolog_error (Compound ''existence_error''
                [Atom ''procedure'', Compound ''/'' [Atom ''greeting'', Number 2]]) ''phrase/2'') []
   \<and> builtin_phrase_3 demo_deref demo_engine
        [Atom ''greeting'', List [] None, List [] None] [] []
     = Raise (prolog_error (Compound ''existence_error''
                [Atom ''procedure'', Compound ''/'' [Atom ''greeting'', Number 2]]) ''phrase/3'') []
   \<and> builtin_phrase_2 demo_deref demo_engine
        [Compound ''member'' [Variable ''X'' 0], List [Atom ''a''] None] [] []
     = Stop []
   \<and> builtin_phrase_3 demo_deref demo_engine
        [Compound ''member'' [Variable ''X'' 0], List [Atom ''a''] None, List [] None] [] []
     = Stop []
   \<and> builtin_phrase_2 demo_deref demo_engine
        [Compound ''lit'' [Atom ''a''], List [Atom ''a''] None] [] []
     = Raise (prolog_error (Compound ''existence_error''
                [Atom ''procedure'', Compound ''/'' [Atom ''lit'', Number 3]]) ''phrase/2'') []
   \<and> builtin_phrase_3 demo_deref demo_engine
        [Compound ''lit'' [Atom ''a''], List [Atom ''a''] None, List [] None] [] []
     = Raise (prolog_error (Compound ''existence_error''
                [Atom ''procedure'', Compound ''/'' [Atom ''lit'', Number 3]]) ''phrase/3'') []
   \<and> builtin_phrase_2 demo_deref demo_engine [Variable ''B'' 5, List [] None] [] []
     = Raise (prolog_error (Atom ''instantiation_error'') ''phrase/2'') []
   \<and> builtin_phrase_3 demo_deref demo_engine [Number 3, List [] None, List [] None] [] []
     = Raise (prolog_error (Compound ''type_error'' [Atom ''callable'', Number 3])
                ''phrase/3'') []"
  using phrase_expansion [where deref = demo_deref and engine = demo_engine
      and Body = "Variable ''B'' 5" and S = "[(5, Atom ''member'')]" and w = "[]"
      and Lst = "Variable ''X'' 0" and Rest = "List [Atom ''a'', Atom ''b''] None"]
    phrase_expansion [where deref = demo_deref and engine = demo_engine
      and Body = "Atom ''member''" and S = "[]" and w = "[]"
      and Lst = "Variable ''X'' 0" and Rest = "List [] None"]
    phrase_expansion [where deref = demo_deref and engine = demo_engine
      and Body = "Atom ''greeting''" and S = "[]" and w = "[]"
      and Lst = "List [] None" and Rest = "List [] None"]
    phrase_expansion [where deref = demo_deref and engine = demo_engine
      and Body = "Compound ''member'' [Variable ''X'' 0]" and S = "[]" and w = "[]"
      and Lst = "List [Atom ''a''] None" and Rest = "List [] None"]
    phrase_expansion [where deref = demo_deref and engine = demo_engine
      and Body = "Compound ''lit'' [Atom ''a'']" and S = "[]" and w = "[]"
      and Lst = "List [Atom ''a''] None" and Rest = "List [] None"]
    phrase_expansion [where deref = demo_deref and engine = demo_engine
      and Body = "Variable ''B'' 5" and S = "[]" and w = "[]"
      and Lst = "List [] None" and Rest = "List [] None"]
    phrase_expansion [where deref = demo_deref and engine = demo_engine
      and Body = "Number 3" and S = "[]" and w = "[]"
      and Lst = "List [] None" and Rest = "List [] None"]
  by (simp add: demo_engine_def demo_exists_def pull_all_def)

section \<open>Conditional compilation faults\<close>

lemma raises_syntax_error [simp]: "raises_error_term (Inl (syntax_error d))"
  by (simp add: syntax_error_def prolog_error_def)

lemma consult_terms_cases:
  "(\<exists>db'. consult_terms holds stack db src = Inr db' \<and> well_nested (map seen_else stack) src)
   \<or> (raises_error_term (consult_terms holds stack db src)
        \<and> \<not> well_nested (map seen_else stack) src)"
proof (induction src arbitrary: stack db)
  case Nil
  show ?case by simp
next
  case (Cons x src)
  show ?case
  proof (cases x)
    case (Clause c)
    with Cons.IH [of stack "if currently_including stack then db @ [c] else db"]
    show ?thesis by simp
  next
    case (Directive d)
    show ?thesis
    proof (cases d)
      case (Atom a)
      show ?thesis
      proof (cases stack)
        case Nil
        with Directive Atom Cons.IH [of "[]" db] show ?thesis by simp
      next
        case (Cons b bs)
        with Directive Atom Cons.IH [of bs db]
          Cons.IH [of "\<lparr>block_active = \<not> branch_taken b, branch_taken = True,
                            seen_else = True\<rparr> # bs" db]
          Cons.IH [of "b # bs" db]
        show ?thesis by simp
      qed
    next
      case (Compound f as)
      with Directive Cons.IH [of stack db]
        Cons.IH [of "\<lparr>block_active = holds (as ! 0), branch_taken = holds (as ! 0),
                    seen_else = False\<rparr> # stack" db]
        Cons.IH [of "\<lparr>block_active = False, branch_taken = True, seen_else = False\<rparr> # stack" db]
      show ?thesis by simp
    qed (use Directive Cons.IH [of stack db] in simp_all)
  qed
qed

lemma well_nested_clauses: "list_all is_clause pre \<Longrightarrow> well_nested blocks (pre @ rest) = well_nested blocks rest"
proof (induction pre)
  case Nil
  show ?case by simp
next
  case (Cons x pre)
  then show ?case by (cases x) simp_all
qed


text \<open>
  C7. Consulting a source unit raises an error term exactly when the unit is not well
  nested, and loads it otherwise; the same holds from every state of the reader, with the
  flags of its open blocks. In particular, whatever clauses \<open>pre\<close>, \<open>then_part\<close> and
  \<open>else_part\<close> are and whatever follows in \<open>rest\<close>: \<open>:- else.\<close> or \<open>:- endif.\<close> with
  no \<open>:- if(...)\<close> open is an error; a second \<open>:- else.\<close> after
  \<open>:- if(G). ... :- else. ...\<close> is an error; and a unit that ends after \<open>:- if(G). ...\<close>
  or after \<open>:- if(G). ... :- else. ...\<close> is an error. The last four parts say the same of
  the reader's steps.
\<close>

theorem conditional_compilation_faults:
  "(raises_error_term (consult_string holds src) \<longleftrightarrow> \<not> well_nested [] src)
   \<and> ((\<exists>db'. consult_string holds src = Inr db') \<longleftrightarrow> well_nested [] src)
   \<and> (raises_error_term (consult_terms holds stack db src)
        \<longleftrightarrow> \<not> well_nested (map seen_else stack) src)
   \<and> (list_all is_clause pre \<longrightarrow>
        raises_error_term (consult_string holds (pre @ Directive (Atom ''else'') # rest))
        \<and> raises_error_term (consult_string holds (pre @ Directive (Atom ''endif'') # rest)))
   \<and> (list_all is_clause pre \<and> list_all is_clause then_part \<and> list_all is_clause else_part \<longrightarrow>
        raises_error_term (consult_string holds
          (pre @ Directive (Compound ''if'' [G]) # then_part @ Directive (Atom ''else'') # else_part
             @ Directive (Atom ''else'') # rest)))
   \<and> (list_all is_clause pre \<and> list_all is_clause then_part \<and> list_all is_clause else_part \<longrightarrow>
        raises_error_term (consult_string holds (pre @ Directive (Compound ''if'' [G]) # then_part))
        \<and> raises_error_term (consult_string holds
              (pre @ Directive (Compound ''if'' [G]) # then_part @ Directive (Atom ''else'') # else_part)))
   \<and> raises_error_term (consult_terms holds [] db (Directive (Atom ''else'') # rest))
   \<and> raises_error_term (consult_terms holds [] db (Directive (Atom ''endif'') # rest))
   \<and> (seen_else b \<longrightarrow>
        raises_error_term (consult_terms holds (b # stack) db (Directive (Atom ''else'') # rest)))
   \<and> (stack \<noteq> [] \<longrightarrow> raises_error_term (consult_terms holds stack db []))"
proof -
  have state: "raises_error_term (consult_terms holds st d u)
      \<longleftrightarrow> \<not> well_nested (map seen_else st) u" for st d u
    using consult_terms_cases [of holds st d u] by auto
  have accepted: "(\<exists>db'. consult_terms holds st d u = Inr db')
      \<longleftrightarrow> well_nested (map seen_else st) u" for st d u
    using consult_terms_cases [of holds st d u] by auto
  have unit: "raises_error_term (consult_string holds u) \<longleftrightarrow> \<not> well_nested [] u" for u
    using state [of "[]" "[]" u] by (simp add: consult_string_def)
  have first: "raises_error_term (consult_string holds src) \<longleftrightarrow> \<not> well_nested [] src"
    by (rule unit)
  have second: "(\<exists>db'. consult_string holds src = Inr db') \<longleftrightarrow> well_nested [] src"
    using accepted [of "[]" "[]" src] by (simp add: consult_string_def)
  have third: "raises_error_term (consult_terms holds stack db src)
        \<longleftrightarrow> \<not> well_nested (map seen_else stack) src"
    by (rule state)
  have stray: "list_all is_clause pre \<longrightarrow>
        raises_error_term (consult_string holds (pre @ Directive (Atom ''else'') # rest))
        \<and> raises_error_term (consult_string holds (pre @ Directive (Atom ''endif'') # rest))"
    by (simp add: unit well_nested_clauses)
  have twice: "list_all is_clause pre \<and> list_all is_clause then_part \<and> list_all is_clause else_part \<longrightarrow>
        raises_error_term (consult_string holds
          (pre @ Directive (Compound ''if'' [G]) # then_part @ Directive (Atom ''else'') # else_part
             @ Directive (Atom ''else'') # rest))"
    by (simp add: unit well_nested_clauses)
  have unclosed: "list_all is_clause pre \<and> list_all is_clause then_part \<and> list_all is_clause else_part \<longrightarrow>
        raises_error_term (consult_string holds (pre @ Directive (Compound ''if'' [G]) # then_part))
        \<and> raises_error_term (consult_string holds
              (pre @ Directive (Compound ''if'' [G]) # then_part @ Directive (Atom ''else'') # else_part))"
    using well_nested_clauses [of then_part "[False]" "[]"] well_nested_clauses [of else_part "[True]" "[]"]
    by (simp add: unit well_nested_clauses)
  have at_state: "raises_error_term (consult_terms holds [] db (Directive (Atom ''else'') # rest))
   \<and> raises_error_term (consult_terms holds [] db (Directive (Atom ''endif'') # rest))
   \<and> (seen_else b \<longrightarrow>
        raises_error_term (consult_terms holds (b # stack) db (Directive (Atom ''else'') # rest)))
   \<and> (stack \<noteq> [] \<longrightarrow> raises_error_term (consult_terms holds stack db []))"
    by simp
  from first second third stray twice unclosed at_state show ?thesis by blast
qed

theorem conditional_compilation_faults_witness:
  "consult_string (\<lambda>g. g = Atom ''true'') [Directive (Atom ''else'')]
     = Inl (syntax_error ''else without if'')
   \<and> consult_string (\<lambda>g. g = Atom ''true'') [Directive (Atom ''endif'')]
     = Inl (syntax_error ''endif without if'')
   \<and> consult_string (\<lambda>g. g = Atom ''true'')
        [Directive (Compound ''if'' [Atom ''true'']), Clause (Atom ''a''),
         Directive (Atom ''else''), Clause (Atom ''b''),
         Directive (Atom ''else''), Clause (Atom ''c''), Directive (Atom ''endif'')]
     = Inl (syntax_error ''multiple else in if block'')
   \<and> consult_string (\<lambda>g. g = Atom ''true'')
        [Directive (Compound ''if'' [Atom ''true'']), Clause (Atom ''fact'')]
     = Inl (syntax_error ''unclosed if directive'')
   \<and> consult_string (\<lambda>g. g = Atom ''true'')
        [Directive (Compound ''if'' [Atom ''fail'']), Clause (Atom ''a''),
         Directive (Atom ''else''), Clause (Atom ''b''), Directive (Atom ''endif'')]
     = Inr [Atom ''b'']
   \<and> well_nested []
        [Directive (Compound ''if'' [Atom ''fail'']), Clause (Atom ''a''),
         Directive (Atom ''else''), Clause (Atom ''b''), Directive (Atom ''endif'')]
   \<and> raises_error_term (consult_string (\<lambda>g. g = Atom ''true'')
        [Directive (Compound ''if'' [Atom ''fail'']),
         Directive (Compound ''if'' [Atom ''true'']), Directive (Atom ''endif'')])
   \<and> list_all is_clause [Clause (Atom ''a'')]
   \<and> seen_else \<lparr>block_active = False, branch_taken = True, seen_else = True\<rparr>
   \<and> raises_error_term (consult_terms (\<lambda>g. g = Atom ''true'')
        [\<lparr>block_active = False, branch_taken = True, seen_else = True\<rparr>] []
        [Directive (Atom ''else'')])
   \<and> raises_error_term (consult_terms (\<lambda>g. g = Atom ''true'')
        [\<lparr>block_active = True, branch_taken = True, seen_else = False\<rparr>] [Atom ''fact''] [])"
  using conditional_compilation_faults [where holds = "\<lambda>g. g = Atom ''true''"
      and src = "[Directive (Compound ''if'' [Atom ''fail'']),
         Directive (Compound ''if'' [Atom ''true'']), Directive (Atom ''endif'')]"
      and stack = "[]" and db = "[]" and rest = "[]" and pre = "[Clause (Atom ''a'')]"
      and then_part = "[Clause (Atom ''a'')]" and else_part = "[Clause (Atom ''a'')]"
      and b = "\<lparr>block_active = False, branch_taken = True, seen_else = True\<rparr>"
      and G = "Atom ''true''"]
    conditional_compilation_faults [where holds = "\<lambda>g. g = Atom ''true''"
      and src = "[Directive (Compound ''if'' [Atom ''fail'']), Clause (Atom ''a''),
         Directive (Atom ''else''), Clause (Atom ''b''), Directive (Atom ''endif'')]"
      and stack = "[\<lparr>block_active = True, branch_taken = True, seen_else = False\<rparr>]"
      and db = "[Atom ''fact'']" and rest = "[]" and pre = "[Clause (Atom ''a'')]"
      and then_part = "[Clause (Atom ''a'')]" and else_part = "[Clause (Atom ''a'')]"
      and b = "\<lparr>block_active = True, branch_taken = True, seen_else = False\<rparr>"]
  by (simp add: consult_string_def currently_including_def syntax_error_def prolog_error_def)

section \<open>Properties of an undefined predicate\<close>

lemma entry_of_apply_op_other:
  "\<not> gives_definition op pi \<Longrightarrow>
     entry_clauses (entry_of (apply_op db op) pi) = entry_clauses (entry_of db pi)
     \<and> is_dynamic (entry_of (apply_op db op) pi) = is_dynamic (entry_of db pi)"
  by (cases op) (auto simp: entry_of_def)

lemma entry_of_foldl_other:
  "\<forall>op \<in> set ops. \<not> gives_definition op pi \<Longrightarrow>
     entry_clauses (entry_of (foldl apply_op db ops) pi) = entry_clauses (entry_of db pi)
     \<and> is_dynamic (entry_of (foldl apply_op db ops) pi) = is_dynamic (entry_of db pi)"
proof (induction ops arbitrary: db)
  case Nil
  show ?case by simp
next
  case (Cons op ops)
  from Cons.prems have "\<not> gives_definition op pi"
    and rest: "\<forall>op \<in> set ops. \<not> gives_definition op pi" by simp_all
  with Cons.IH [OF rest, of "apply_op db op"] entry_of_apply_op_other [of op pi db]
  show ?case by simp
qed

text \<open>
  C8, as stated, for \<open>true/0\<close> in a fresh database: no clause defines it and nothing
  declares it dynamic, and it has the property \<open>built_in\<close>, since the control built-ins
  register it.
\<close>

theorem builtin_without_clauses_counterexample:
  "entry_clauses (entry_of empty_database (''true'', 0)) = []
   \<and> \<not> is_dynamic (entry_of empty_database (''true'', 0))
   \<and> predicate_properties (ControlBuiltins_register []) empty_database (''true'', 0)
       = [''built_in'', ''static'']"
  by (simp add: predicate_properties_def ControlBuiltins_register_def register_builtin_def
        entry_of_def no_entry_def empty_database_def)

text \<open>
  C8, amended. For every predicate indicator that is not a registered built-in, and every
  database built from the empty one by operations none of which adds a clause for it or
  declares it dynamic, \<open>predicate_property/2\<close> enumerates \<open>static\<close> and nothing else.
\<close>

theorem undefined_predicate_static:
  "pi \<notin> set registry \<and> (\<forall>op \<in> set ops. \<not> gives_definition op pi) \<longrightarrow>
     predicate_properties registry (foldl apply_op empty_database ops) pi = [''static'']"
proof
  assume h: "pi \<notin> set registry \<and> (\<forall>op \<in> set ops. \<not> gives_definition op pi)"
  then have "entry_clauses (entry_of (foldl apply_op empty_database ops) pi) = []
      \<and> \<not> is_dynamic (entry_of (foldl apply_op empty_database ops) pi)"
    using entry_of_foldl_other [of ops pi empty_database]
    by (simp add: entry_of_def no_entry_def empty_database_def)
  with h show "predicate_properties registry (foldl apply_op empty_database ops) pi
                 = [''static'']"
    by (simp add: predicate_properties_def)
qed

theorem undefined_predicate_static_witness:
  "(''nonexistent_pred'', 1) \<notin> set (DCGBuiltins_register (ControlBuiltins_register []))
   \<and> predicate_properties (DCGBuiltins_register (ControlBuiltins_register []))
        (foldl apply_op empty_database
           [Declare_dynamic (''foo'', 1), Assertz (''foo'', 1) (Compound ''foo'' [Atom ''a''], Atom ''true''),
            Declare_multifile (''nonexistent_pred'', 1)])
        (''nonexistent_pred'', 1) = [''static'']
   \<and> predicate_properties (DCGBuiltins_register (ControlBuiltins_register []))
        (foldl apply_op empty_database
           [Declare_dynamic (''foo'', 1), Assertz (''foo'', 1) (Compound ''foo'' [Atom ''a''], Atom ''true''),
            Declare_multifile (''nonexistent_pred'', 1)])
        (''foo'', 1) = [''dynamic'']"
  using undefined_predicate_static [of "(''nonexistent_pred'', 1)"
      "DCGBuiltins_register (ControlBuiltins_register [])"
      "[Declare_dynamic (''foo'', 1), Assertz (''foo'', 1) (Compound ''foo'' [Atom ''a''], Atom ''true''),
        Declare_multifile (''nonexistent_pred'', 1)]"]
  by (simp add: predicate_properties_def ControlBuiltins_register_def DCGBuiltins_register_def
        register_builtin_def entry_of_def no_entry_def empty_database_def)

section \<open>Cut and \<open>call/1\<close>\<close>

lemma run_answers:
  "run (answers r e w) (\<lambda>seen w. Some w) seen
     = (r, (case e of None \<Rightarrow> Exhausted | Some x \<Rightarrow> Raised x), w)"
  by (induction r arbitrary: seen) (simp_all split: option.splits)

lemma collect_answers: "collect (answers r e w) = (r, e)"
  by (simp add: collect_def run_answers split: option.splits)

lemma solve_call:
  "solve (Suc stack) interp depth (Compound ''call'' [G] # gs) s =
     (case solve stack interp depth [deref_goal interp G s] s of
        (r, c, e) \<Rightarrow> then_each (solve stack interp depth gs) r e)"
  by (simp add: deref_goal_def yield_from_tail as_engine_def collect_answers
        split: prod.splits)

lemma then_each_no_cut:
  "(\<And>s. fst (snd (k s)) = False) \<Longrightarrow> fst (snd (then_each k ss e)) = False"
proof (induction ss)
  case Nil
  show ?case by simp
next
  case (Cons s ss)
  from Cons.prems [of s] Cons.IH [OF Cons.prems] show ?case
    by (cases "k s") (auto split: prod.splits)
qed

lemma solve_nil_no_cut: "fst (snd (solve stack interp depth [] s)) = False"
  by (cases stack) simp_all

lemma solve_call_no_cut:
  "fst (snd (solve stack interp depth [Compound ''call'' [G]] s)) = False"
proof (cases stack)
  case 0
  then show ?thesis by simp
next
  case (Suc n)
  have "fst (snd (then_each (solve n interp depth []) r e)) = False" for r e
    by (rule then_each_no_cut) (rule solve_nil_no_cut)
  with Suc show ?thesis
    by (simp only: solve_call split: prod.splits) simp
qed

lemma then_each_all:
  "(\<And>s. fst (snd (k s)) = False) \<Longrightarrow> \<forall>s \<in> set ss. snd (snd (k s)) = None \<Longrightarrow>
     then_each k ss e = (concat (map (\<lambda>s. fst (k s)) ss), False, e)"
proof (induction ss)
  case Nil
  show ?case by simp
next
  case (Cons s ss)
  from Cons.prems have rest: "\<forall>s \<in> set ss. snd (snd (k s)) = None"
    and here: "snd (snd (k s)) = None" by simp_all
  from Cons.prems(1) [of s] here Cons.IH [OF Cons.prems(1) rest] show ?case
    by (cases "k s") simp
qed

text \<open>
  C4. \<open>_builtin_call\<close> hands the dereferenced goal to the resolver and passes on its
  substitutions, nothing else. In the resolver, the outcome of \<open>call(G), Rest\<close> is made
  from the solutions of \<open>G\<close> and the exception that ended them; whether a cut ran inside
  \<open>G\<close> is not looked at. So a body \<open>call(G)\<close> never reports a cut; the clauses that
  follow a clause with body \<open>call(G)\<close> are tried after it; and every solution of the
  goals to the left of \<open>call(G)\<close> is used. (The witness shows a cut inside \<open>G\<close> pruning the
  choice points of \<open>G\<close>, and a cut outside \<open>call\<close> pruning those of the clause.)
\<close>

theorem call_cut_barrier:
  "builtin_call deref engine [G] S w = solve_goals engine [deref G S] S w
   \<and> solve (Suc stack) interp depth (Compound ''call'' [G] # gs) s =
       (case solve stack interp depth [deref_goal interp G s] s of
          (r, c, e) \<Rightarrow> then_each (solve stack interp depth gs) r e)
   \<and> fst (snd (solve stack interp depth [Compound ''call'' [G]] s)) = False
   \<and> (snd (snd (solve stack interp depth [Compound ''call'' [G]] s)) = None \<longrightarrow>
        try_clauses (\<lambda>(s', body). solve stack interp depth [body] s')
            ((s, Compound ''call'' [G]) # cs)
          = (fst (solve stack interp depth [Compound ''call'' [G]] s)
               @ fst (try_clauses (\<lambda>(s', body). solve stack interp depth [body] s') cs),
             snd (try_clauses (\<lambda>(s', body). solve stack interp depth [body] s') cs)))
   \<and> ((\<forall>s' \<in> set ss. snd (snd (solve stack interp depth [Compound ''call'' [G]] s')) = None) \<longrightarrow>
        then_each (\<lambda>s'. solve stack interp depth [Compound ''call'' [G]] s') ss e
          = (concat (map (\<lambda>s'. fst (solve stack interp depth [Compound ''call'' [G]] s')) ss),
             False, e))"
proof (intro conjI impI)
  show "builtin_call deref engine [G] S w = solve_goals engine [deref G S] S w"
    by (simp add: yield_from_tail)
next
  show "solve (Suc stack) interp depth (Compound ''call'' [G] # gs) s =
       (case solve stack interp depth [deref_goal interp G s] s of
          (r, c, e) \<Rightarrow> then_each (solve stack interp depth gs) r e)"
    by (rule solve_call)
next
  show "fst (snd (solve stack interp depth [Compound ''call'' [G]] s)) = False"
    by (rule solve_call_no_cut)
next
  assume "snd (snd (solve stack interp depth [Compound ''call'' [G]] s)) = None"
  with solve_call_no_cut [of stack interp depth G s]
  show "try_clauses (\<lambda>(s', body). solve stack interp depth [body] s')
            ((s, Compound ''call'' [G]) # cs)
          = (fst (solve stack interp depth [Compound ''call'' [G]] s)
               @ fst (try_clauses (\<lambda>(s', body). solve stack interp depth [body] s') cs),
             snd (try_clauses (\<lambda>(s', body). solve stack interp depth [body] s') cs))"
    by (cases "solve stack interp depth [Compound ''call'' [G]] s")
       (simp split: prod.splits)
next
  assume "\<forall>s' \<in> set ss. snd (snd (solve stack interp depth [Compound ''call'' [G]] s')) = None"
  then show "then_each (\<lambda>s'. solve stack interp depth [Compound ''call'' [G]] s') ss e
          = (concat (map (\<lambda>s'. fst (solve stack interp depth [Compound ''call'' [G]] s')) ss),
             False, e)"
    by (intro then_each_all solve_call_no_cut)
qed

theorem call_cut_barrier_witness:
  "run (builtin_call demo_deref demo_engine [Variable ''G'' 7]
          [(7, Compound ''member'' [Variable ''X'' 0, List [Atom ''a'', Atom ''b''] None])] [])
       pull_all []
     = ([[(0, Atom ''a''), (7, Compound ''member'' [Variable ''X'' 0, List [Atom ''a'', Atom ''b''] None])],
         [(0, Atom ''b''), (7, Compound ''member'' [Variable ''X'' 0, List [Atom ''a'', Atom ''b''] None])]],
        Exhausted, [])
   \<and> solve 12 (demo_interpreter 50) 0 [Atom ''q''] [] = ([[(0, Number 1)], []], False, None)
   \<and> solve 12 (demo_interpreter 50) 0 [Atom ''r''] [] = ([[(0, Number 1)]], False, None)
   \<and> solve 12 (demo_interpreter 50) 0
        [Compound ''p'' [Variable ''X'' 0], Compound ''call'' [Atom ''!'']] []
       = ([[(0, Number 1)], [(0, Number 2)]], False, None)
   \<and> solve 12 (demo_interpreter 50) 0 [Compound ''p'' [Variable ''X'' 0], Atom ''!''] []
       = ([[(0, Number 1)]], True, None)
   \<and> snd (snd (solve 12 (demo_interpreter 50) 1
        [Compound ''call'' [Compound '','' [Compound ''p'' [Variable ''X'' 0], Atom ''!'']]] []))
       = None
   \<and> try_clauses (\<lambda>(s', body). solve 12 (demo_interpreter 50) 1 [body] s')
        [([], Compound ''call'' [Compound '','' [Compound ''p'' [Variable ''X'' 0], Atom ''!'']]),
         ([], Atom ''true'')]
       = ([[(0, Number 1)], []], None)
   \<and> then_each (\<lambda>s'. solve 12 (demo_interpreter 50) 0 [Compound ''call'' [Atom ''!'']] s')
        [[(0, Number 1)], [(0, Number 2)]] None
       = ([[(0, Number 1)], [(0, Number 2)]], False, None)"
proof -
  have runs:
    "solve 12 (demo_interpreter 50) 0 [Atom ''q''] [] = ([[(0, Number 1)], []], False, None)
     \<and> solve 12 (demo_interpreter 50) 0 [Atom ''r''] [] = ([[(0, Number 1)]], False, None)
     \<and> solve 12 (demo_interpreter 50) 0
          [Compound ''p'' [Variable ''X'' 0], Compound ''call'' [Atom ''!'']] []
         = ([[(0, Number 1)], [(0, Number 2)]], False, None)
     \<and> solve 12 (demo_interpreter 50) 0 [Compound ''p'' [Variable ''X'' 0], Atom ''!''] []
         = ([[(0, Number 1)]], True, None)
     \<and> solve 12 (demo_interpreter 50) 1
          [Compound ''call'' [Compound '','' [Compound ''p'' [Variable ''X'' 0], Atom ''!'']]] []
         = ([[(0, Number 1)]], False, None)
     \<and> solve 12 (demo_interpreter 50) 1 [Atom ''true''] [] = ([[]], False, None)
     \<and> solve 12 (demo_interpreter 50) 0 [Compound ''call'' [Atom ''!'']] [(0, Number 1)]
         = ([[(0, Number 1)]], False, None)
     \<and> solve 12 (demo_interpreter 50) 0 [Compound ''call'' [Atom ''!'']] [(0, Number 2)]
         = ([[(0, Number 2)]], False, None)"
    by code_simp
  from runs
    call_cut_barrier [where deref = demo_deref and engine = demo_engine
      and G = "Variable ''G'' 7"
      and S = "[(7, Compound ''member'' [Variable ''X'' 0, List [Atom ''a'', Atom ''b''] None])]"
      and w = "[]"]
    call_cut_barrier [where stack = 12 and interp = "demo_interpreter 50" and depth = 1
      and G = "Compound '','' [Compound ''p'' [Variable ''X'' 0], Atom ''!'']"
      and s = "[]" and cs = "[([], Atom ''true'')]"]
    call_cut_barrier [where stack = 12 and interp = "demo_interpreter 50" and depth = 0
      and G = "Atom ''!''" and ss = "[[(0, Number 1)], [(0, Number 2)]]" and e = None]
  show ?thesis
    by (simp add: demo_engine_def pull_all_def)
qed

section \<open>The recursion depth limit\<close>

lemma solve_beyond_limit:
  "max_recursion_depth interp \<le> depth \<Longrightarrow> user_call goal \<Longrightarrow>
     solve (Suc stack) interp depth (goal # gs) s = ([], False, Some resource_error)"
  by (cases goal) (auto simp: deref_goal_def call_predicate_def)

lemma solve_infinite:
  "0 < stack \<Longrightarrow> limit < stack + depth \<Longrightarrow>
     solve stack (demo_interpreter limit) depth [Atom ''infinite''] s
       = ([], False, Some resource_error)"
proof (induction stack arbitrary: depth)
  case 0
  then show ?case by simp
next
  case (Suc n)
  show ?case
  proof (cases "limit < depth + 1")
    case True
    then show ?thesis
      by (simp add: deref_goal_def call_predicate_def demo_interpreter_def)
  next
    case False
    with Suc.prems have "0 < n" and "limit < n + (depth + 1)" by simp_all
    from Suc.IH [OF this] False show ?thesis
      by (simp add: deref_goal_def call_predicate_def demo_interpreter_def)
  qed
qed

lemma count_down_within_limit:
  "depth + k < limit \<Longrightarrow> k + 3 \<le> stack \<Longrightarrow>
     solve stack (demo_interpreter limit) depth [Compound ''count_down'' [peano k]] s
       = ([s], False, None)"
proof (induction k arbitrary: stack depth)
  case 0
  then obtain n where "stack = Suc (Suc (Suc n))"
    by (metis add_0 le_Suc_ex numeral_3_eq_3 plus_nat.simps(2) add.commute)
  with "0.prems" show ?case
    by (simp add: deref_goal_def call_predicate_def demo_interpreter_def)
next
  case (Suc k)
  then obtain n where n: "stack = Suc n" "k + 3 \<le> n"
    by (cases stack) auto
  from Suc.prems have "depth + 1 + k < limit" by simp
  from Suc.IH [OF this n(2)] n Suc.prems show ?case
    by (cases n) (simp_all add: deref_goal_def call_predicate_def demo_interpreter_def)
qed

lemma count_down_beyond_limit:
  "limit \<le> depth + k \<Longrightarrow> 0 < stack \<Longrightarrow> limit < stack + depth \<Longrightarrow>
     solve stack (demo_interpreter limit) depth [Compound ''count_down'' [peano k]] s
       = ([], False, Some resource_error)"
proof (induction k arbitrary: stack depth)
  case 0
  then obtain n where "stack = Suc n" by (cases stack) auto
  with "0.prems" show ?case
    by (simp add: deref_goal_def call_predicate_def demo_interpreter_def)
next
  case (Suc k)
  then obtain n where n: "stack = Suc n" by (cases stack) auto
  show ?case
  proof (cases "limit < depth + 1")
    case True
    with n show ?thesis
      by (simp add: deref_goal_def call_predicate_def demo_interpreter_def)
  next
    case False
    with Suc.prems n have "limit \<le> depth + 1 + k" "0 < n" "limit < n + (depth + 1)"
      by simp_all
    from Suc.IH [OF this] n False show ?thesis
      by (simp add: deref_goal_def call_predicate_def demo_interpreter_def)
  qed
qed

lemma starts_with_iff: "take (length a) b = a \<longleftrightarrow> (\<exists>more. b = a @ more)"
  by (metis append_eq_conv_conj append_take_drop_id)

lemma same_or_resource_error_alt:
  "same_or_resource_error a b \<longleftrightarrow>
     a = b \<or> (snd (snd a) = Some resource_error \<and> (\<exists>more. fst b = fst a @ more))"
  by (simp add: same_or_resource_error_def starts_with_iff)

lemma same_or_resource_error2_alt:
  "same_or_resource_error2 a b \<longleftrightarrow>
     a = b \<or> (snd a = Some resource_error \<and> (\<exists>more. fst b = fst a @ more))"
  by (simp add: same_or_resource_error2_def starts_with_iff)

lemma then_each_starts: "\<exists>more. fst (then_each k (s # ss) e) = fst (k s) @ more"
  by (cases "k s") (auto split: prod.splits)

lemma then_each_related:
  "same_or_resource_error2 (r, e) (r', e') \<Longrightarrow> (\<And>s. same_or_resource_error (k s) (k' s)) \<Longrightarrow>
     same_or_resource_error (then_each k r e) (then_each k' r' e')"
proof (induction r arbitrary: r')
  case Nil
  then show ?case
    by (auto simp: same_or_resource_error_alt same_or_resource_error2_alt)
next
  case (Cons s ss)
  from Cons.prems(1) obtain ss' where r': "r' = s # ss'"
    and rest: "same_or_resource_error2 (ss, e) (ss', e')"
    by (auto simp: same_or_resource_error2_alt)
  note IH = Cons.IH [OF rest Cons.prems(2)]
  obtain a c x where ks: "k s = (a, c, x)" by (cases "k s") auto
  obtain a' c' x' where ks': "k' s = (a', c', x')" by (cases "k' s") auto
  from Cons.prems(2) [of s] ks ks'
  consider (same) "a' = a" "c' = c" "x' = x"
    | (raised) more where "x = Some resource_error" "a' = a @ more"
    by (auto simp: same_or_resource_error_alt)
  then show ?case
  proof cases
    case same
    with ks ks' r' IH show ?thesis
      by (auto simp: same_or_resource_error_alt split: prod.splits)
  next
    case raised
    from then_each_starts [of k' s ss' e'] ks' raised
    obtain more' where "fst (then_each k' (s # ss') e') = a @ more @ more'" by auto
    with ks raised r' show ?thesis
      by (auto simp: same_or_resource_error_alt)
  qed
qed

lemma try_clauses_starts: "\<exists>more. fst (try_clauses k (c # cs)) = fst (k c) @ more"
  by (cases "k c") (auto split: prod.splits)

lemma try_clauses_related:
  "(\<And>c. same_or_resource_error (k c) (k' c)) \<Longrightarrow>
     same_or_resource_error2 (try_clauses k cs) (try_clauses k' cs)"
proof (induction cs)
  case Nil
  show ?case by (simp add: same_or_resource_error2_alt)
next
  case (Cons c cs)
  note IH = Cons.IH [OF Cons.prems]
  obtain a b x where kc: "k c = (a, b, x)" by (cases "k c") auto
  obtain a' b' x' where kc': "k' c = (a', b', x')" by (cases "k' c") auto
  from Cons.prems [of c] kc kc'
  consider (same) "a' = a" "b' = b" "x' = x"
    | (raised) more where "x = Some resource_error" "a' = a @ more"
    by (auto simp: same_or_resource_error_alt)
  then show ?case
  proof cases
    case same
    with kc kc' IH show ?thesis
      by (auto simp: same_or_resource_error2_alt split: prod.splits)
  next
    case raised
    from try_clauses_starts [of k' c cs] kc' raised
    obtain more' where "fst (try_clauses k' (c # cs)) = a @ more @ more'" by auto
    with kc raised show ?thesis
      by (auto simp: same_or_resource_error2_alt)
  qed
qed

lemma call_predicate_related:
  assumes "max_recursion_depth interp \<le> limit'"
    and "\<And>d gs s. same_or_resource_error (sb d gs s) (sb' d gs s)"
  shows "same_or_resource_error2 (call_predicate interp sb depth goal s)
           (call_predicate (interp\<lparr>max_recursion_depth := limit'\<rparr>) sb' depth goal s)"
proof (cases "max_recursion_depth interp < depth + 1")
  case True
  then show ?thesis
    by (simp add: call_predicate_def same_or_resource_error2_alt)
next
  case False
  with assms(1) have "\<not> limit' < depth + 1" by simp
  with False show ?thesis
    using try_clauses_related [of "\<lambda>(s', body). sb (depth + 1) [body] s'"
        "\<lambda>(s', body). sb' (depth + 1) [body] s'"] assms(2)
    by (auto simp: call_predicate_def same_or_resource_error2_alt split: option.splits prod.splits)
qed


lemma same_or_resource_error_refl: "same_or_resource_error a a"
  by (simp add: same_or_resource_error_alt)

lemma same_or_resource_error_cut:
  "same_or_resource_error a b \<Longrightarrow>
     same_or_resource_error (case a of (r, c, e) \<Rightarrow> (r, True, e)) (case b of (r, c, e) \<Rightarrow> (r, True, e))"
  by (auto simp: same_or_resource_error_alt split: prod.splits)

lemma same_or_resource_error_pair:
  "same_or_resource_error a b \<Longrightarrow>
     same_or_resource_error2 (fst a, snd (snd a)) (fst b, snd (snd b))"
  by (auto simp: same_or_resource_error_alt same_or_resource_error2_alt)

lemma collect_builtin_call:
  "collect (builtin_call (deref_goal interp) (as_engine f) [G] s ())
     = (fst (f [deref_goal interp G s] s), snd (snd (f [deref_goal interp G s] s)))"
  by (simp add: yield_from_tail as_engine_def collect_answers split: prod.splits)

lemma deref_goal_limit [simp]:
  "deref_goal (interp\<lparr>max_recursion_depth := limit'\<rparr>) g s = deref_goal interp g s"
  by (simp add: deref_goal_def split: prolog_term.splits)

lemma solve_related:
  assumes le: "max_recursion_depth interp \<le> limit'"
  shows "same_or_resource_error (solve stack interp depth goals s)
           (solve stack (interp\<lparr>max_recursion_depth := limit'\<rparr>) depth goals s)"
proof (induction stack arbitrary: depth goals s)
  case 0
  show ?case by (simp add: same_or_resource_error_refl)
next
  case (Suc n)
  let ?I = "interp\<lparr>max_recursion_depth := limit'\<rparr>"
  have user: "same_or_resource_error
      (case call_predicate interp (solve n interp) depth g s of
         (r, e) \<Rightarrow> then_each (solve n interp depth gs) r e)
      (case call_predicate ?I (solve n ?I) depth g s of
         (r, e) \<Rightarrow> then_each (solve n ?I depth gs) r e)" for g gs
  proof -
    obtain r e where a: "call_predicate interp (solve n interp) depth g s = (r, e)"
      by (cases "call_predicate interp (solve n interp) depth g s") auto
    obtain r' e' where b: "call_predicate ?I (solve n ?I) depth g s = (r', e')"
      by (cases "call_predicate ?I (solve n ?I) depth g s") auto
    from call_predicate_related [OF le, of "solve n interp" "solve n ?I" depth g s] Suc.IH a b
    have "same_or_resource_error2 (r, e) (r', e')" by simp
    from then_each_related [OF this, of "solve n interp depth gs" "solve n ?I depth gs"] Suc.IH a b
    show ?thesis by simp
  qed
  show ?case
  proof (cases goals)
    case Nil
    then show ?thesis by (simp add: same_or_resource_error_refl)
  next
    case (Cons g gs)
    show ?thesis
    proof (cases "deref_goal interp g s")
      case (Atom a)
      with Cons Suc.IH [of depth gs s] user [where g = "Atom a" and gs = gs]
        same_or_resource_error_cut [OF Suc.IH [of depth gs s]]
      show ?thesis
        by (simp add: same_or_resource_error_refl)
    next
      case (Compound f as)
      consider (conj) "f = '','' \<and> length as = 2"
        | (call) "f = ''call'' \<and> length as = 1"
        | (other) "\<not> (f = '','' \<and> length as = 2)" "\<not> (f = ''call'' \<and> length as = 1)"
        by blast
      then show ?thesis
      proof cases
        case conj
        with Cons Compound Suc.IH [of depth "as ! 0 # as ! 1 # gs" s]
        show ?thesis by simp
      next
        case call
        then obtain G where as: "as = [G]" by (cases as) auto
        let ?o = "solve n interp depth [deref_goal interp G s] s"
        let ?o' = "solve n ?I depth [deref_goal interp G s] s"
        from same_or_resource_error_pair [OF Suc.IH [of depth "[deref_goal interp G s]" s]]
        have "same_or_resource_error2 (fst ?o, snd (snd ?o)) (fst ?o', snd (snd ?o'))" .
        from then_each_related [OF this, of "solve n interp depth gs" "solve n ?I depth gs"] Suc.IH
        have "same_or_resource_error
                (then_each (solve n interp depth gs) (fst ?o) (snd (snd ?o)))
                (then_each (solve n ?I depth gs) (fst ?o') (snd (snd ?o')))" by simp
        with Cons Compound call as show ?thesis
          by (simp add: collect_builtin_call [of interp] collect_builtin_call [of ?I, simplified])
      next
        case other
        with Cons Compound user [where g = "Compound f as" and gs = gs]
        show ?thesis by auto
      qed
    qed (use Cons in \<open>simp_all add: same_or_resource_error_refl\<close>)
  qed
qed

text \<open>
  C5. A predicate call at a depth that has reached the limit of its interpreter raises
  the error term \<open>resource_error(recursion_depth_exceeded)\<close>, a \<open>PrologThrow\<close>, whatever
  the program. For \<open>infinite :- infinite.\<close> the query raises it under every limit, as
  long as the host stack is deeper than the limit (otherwise Python's RecursionError comes
  first). The limit belongs to the interpreter: \<open>count_down\<close> of \<open>k\<close> succeeds in an
  interpreter whose limit is above \<open>k\<close> and raises the error in one whose limit is not.
  And for every program and query, all that a lower limit changes is this: the outcome is
  the one under the higher limit, or it ended in that error after the same first
  solutions.
\<close>

theorem recursion_depth_limit:
  "(max_recursion_depth interp \<le> depth \<and> user_call goal \<longrightarrow>
      solve (Suc stack) interp depth (goal # gs) s = ([], False, Some resource_error))
   \<and> (limit < stack \<longrightarrow>
      solve stack (demo_interpreter limit) 0 [Atom ''infinite''] s
        = ([], False, Some resource_error))
   \<and> (limit < stack \<and> k + 3 \<le> stack \<longrightarrow>
      solve stack (demo_interpreter limit) 0 [Compound ''count_down'' [peano k]] s
        = (if k < limit then ([s], False, None) else ([], False, Some resource_error)))
   \<and> (max_recursion_depth interp \<le> limit' \<longrightarrow>
      same_or_resource_error (solve stack interp depth goals s)
        (solve stack (interp\<lparr>max_recursion_depth := limit'\<rparr>) depth goals s))
   \<and> (\<exists>t. resource_error = PrologThrow (Compound ''error''
        [Compound ''resource_error'' [Atom ''recursion_depth_exceeded''], t]))"
proof (intro conjI impI)
  assume "max_recursion_depth interp \<le> limit'"
  then show "same_or_resource_error (solve stack interp depth goals s)
        (solve stack (interp\<lparr>max_recursion_depth := limit'\<rparr>) depth goals s)"
    by (rule solve_related)
next
  assume "max_recursion_depth interp \<le> depth \<and> user_call goal"
  then show "solve (Suc stack) interp depth (goal # gs) s = ([], False, Some resource_error)"
    by (intro solve_beyond_limit) simp_all
next
  assume "limit < stack"
  then show "solve stack (demo_interpreter limit) 0 [Atom ''infinite''] s
        = ([], False, Some resource_error)"
    by (intro solve_infinite) simp_all
next
  assume h: "limit < stack \<and> k + 3 \<le> stack"
  show "solve stack (demo_interpreter limit) 0 [Compound ''count_down'' [peano k]] s
        = (if k < limit then ([s], False, None) else ([], False, Some resource_error))"
  proof (cases "k < limit")
    case True
    with h count_down_within_limit [of 0 k limit stack s] show ?thesis by simp
  next
    case False
    with h count_down_beyond_limit [of limit 0 k stack s] show ?thesis by simp
  qed
next
  show "\<exists>t. resource_error = PrologThrow (Compound ''error''
        [Compound ''resource_error'' [Atom ''recursion_depth_exceeded''], t])"
    by (simp add: resource_error_def prolog_error_def)
qed

theorem recursion_depth_limit_witness:
  "solve 1000 (demo_interpreter 100) 0 [Atom ''infinite''] []
     = ([], False, Some resource_error)
   \<and> solve 1000 (demo_interpreter 50) 0 [Compound ''count_down'' [peano 40]] []
     = ([[]], False, None)
   \<and> solve 1000 (demo_interpreter 50) 0 [Compound ''count_down'' [peano 100]] []
     = ([], False, Some resource_error)
   \<and> solve 1000 (demo_interpreter 250) 0 [Compound ''count_down'' [peano 200]] []
     = ([[]], False, None)
   \<and> solve (Suc 1000) (demo_interpreter 3) 3 [Compound ''p'' [Variable ''X'' 0]] []
     = ([], False, Some resource_error)
   \<and> max_recursion_depth (demo_interpreter 3) \<le> 50
   \<and> same_or_resource_error
        (solve 1000 (demo_interpreter 3) 3 [Compound ''count_down'' [peano 40]] [])
        (solve 1000 ((demo_interpreter 3)\<lparr>max_recursion_depth := 50\<rparr>) 3
           [Compound ''count_down'' [peano 40]] [])"
  using recursion_depth_limit [where limit = 100 and stack = 1000 and s = "[]" and k = 0
      and interp = "demo_interpreter 3" and depth = 3
      and goal = "Compound ''p'' [Variable ''X'' 0]" and gs = "[]"
      and limit' = 50 and goals = "[Compound ''count_down'' [peano 40]]"]
    recursion_depth_limit [where limit = 50 and stack = 1000 and s = "[]" and k = 40
      and interp = "demo_interpreter 3" and depth = 3
      and goal = "Compound ''p'' [Variable ''X'' 0]" and gs = "[]"]
    recursion_depth_limit [where limit = 50 and stack = 1000 and s = "[]" and k = 100
      and interp = "demo_interpreter 3" and depth = 3
      and goal = "Compound ''p'' [Variable ''X'' 0]" and gs = "[]"]
    recursion_depth_limit [where limit = 250 and stack = 1000 and s = "[]" and k = 200
      and interp = "demo_interpreter 3" and depth = 3
      and goal = "Compound ''p'' [Variable ''X'' 0]" and gs = "[]"]
  by (simp add: demo_interpreter_def)

end
